theory Spec2Isabelle
  imports Complex_Main
begin

section \<open>Errors\<close>

text \<open>
  The exceptions that the functions of \<^verbatim>\<open>gdbp_base.py\<close> raise themselves or that
  reach them from integer arithmetic. A failed tap assertion carries the name of the
  tap count and the offending value, the two pieces its message
  \<^verbatim>\<open>'<name> must be odd number, got <value> instead'\<close> is built from.
\<close>

datatype py_error =
    AssertionError string int
  | ValueError string
  | ZeroDivisionError

section \<open>Module construction\<close>

text \<open>
  The layers of \<^verbatim>\<open>commplax.module.layer\<close> are outside this file; a layer is
  recorded by its constructor and the arguments \<^verbatim>\<open>make_base_module\<close> gives it.
  The training flag of the MIMO layers is either a constant or the step function
  \<^verbatim>\<open>cxopt.piecewise_constant(boundaries, values)\<close>.
\<close>

datatype mimo_train = Const_train bool | Piecewise_constant "int list" "bool list"

datatype ('d, 'n) layer =
    FDBP int int int 'd 'n
  | BatchPowerNorm string
  | MIMOFOEAf string real mimo_train int
  | RConv string int
  | MIMOAF mimo_train

type_synonym ('d, 'n) Serial = "('d, 'n) layer list"

definition assert_taps :: "int \<Rightarrow> int \<Rightarrow> int \<Rightarrow> int \<Rightarrow> py_error + unit" where
  "assert_taps dtaps ntaps rtaps sps =
     (if sps = 0 then Inl ZeroDivisionError
      else if dtaps mod sps = 0 then Inl (AssertionError ''dtaps'' dtaps)
      else if ntaps mod sps = 0 then Inl (AssertionError ''ntaps'' ntaps)
      else if rtaps mod sps = 0 then Inl (AssertionError ''rtaps'' rtaps)
      else Inr ())"

definition make_base_module ::
  "int \<Rightarrow> int \<Rightarrow> int \<Rightarrow> int \<Rightarrow> 'd \<times> 'n \<Rightarrow> real \<Rightarrow> string \<Rightarrow> py_error + ('d, 'n) Serial" where
  "make_base_module steps dtaps ntaps rtaps init_fn w0 mode =
     (case assert_taps dtaps ntaps rtaps 2 of
        Inl e \<Rightarrow> Inl e
      | Inr _ \<Rightarrow>
          (let (d_init, n_init) = init_fn in
           if mode = ''train'' then
             (let mimo_train = Const_train True in
              Inr [FDBP steps dtaps ntaps d_init n_init,
                   BatchPowerNorm mode,
                   MIMOFOEAf ''FOEAf'' w0 mimo_train rtaps,
                   RConv ''RConv'' rtaps,
                   MIMOAF mimo_train])
           else if mode = ''test'' then
             (let mimo_train = Piecewise_constant [200000] [True, False] in
              Inr [FDBP steps dtaps ntaps d_init n_init,
                   BatchPowerNorm mode,
                   MIMOFOEAf ''FOEAf'' w0 mimo_train rtaps,
                   RConv ''RConv'' rtaps,
                   MIMOAF mimo_train])
           else Inl (ValueError (''invalid mode '' @ mode))))"

section \<open>Python slices\<close>

text \<open>
  \<^verbatim>\<open>xs[a:b]\<close> on a sequence of length \<open>n\<close>: a negative bound counts from the end,
  both bounds are clamped to \<open>0..n\<close>, and the slice is empty when the upper bound is not
  above the lower one.
\<close>

definition py_bound :: "nat \<Rightarrow> int \<Rightarrow> nat" where
  "py_bound n i = (if i < 0 then nat (int n + i) else min n (nat i))"

definition py_slice :: "'a list \<Rightarrow> int \<Rightarrow> int \<Rightarrow> 'a list" where
  "py_slice xs a b =
     (let lo = py_bound (length xs) a; hi = py_bound (length xs) b
      in take (hi - lo) (drop lo xs))"

section \<open>Datasets and batch windowing\<close>

text \<open>
  \<^verbatim>\<open>gdat.Input\<close>: the received waveform \<open>y\<close> (one row per sample), the sent symbols
  \<open>x\<close> (one row per symbol) and the initial frequency offset \<open>w0\<close>.
\<close>

record Input =
  ds_y :: "complex list list"
  ds_x :: "complex list list"
  ds_w0 :: real

text \<open>
  Modelled from the spec: \<^verbatim>\<open>op.frame_shape\<close> and \<^verbatim>\<open>op.frame_gen\<close> of the commplax
  library, which \<^verbatim>\<open>get_train_batch\<close> calls and whose code is not part of the sources.
  The spec gives their contract for frame length \<open>flen = B + O\<close> and step \<open>fstep = B\<close>:
  a signal of length \<open>L\<close> yields \<open>floor ((L - O) / B)\<close> windows of length \<open>B + O\<close>,
  window \<open>i\<close> starting at \<open>i * B\<close>, and no window at all when \<open>L < O + B\<close>.
  \<open>frame_shape\<close> returns the number of frames (the first component of the shape).
  A zero step with a signal that holds one frame divides by zero.
\<close>

definition frame_shape :: "nat \<Rightarrow> int \<Rightarrow> int \<Rightarrow> py_error + nat" where
  "frame_shape n flen fstep =
     (if int n < flen then Inr 0
      else if fstep = 0 then Inl ZeroDivisionError
      else Inr (nat ((int n - (flen - fstep)) div fstep)))"

definition frame_gen :: "'a list \<Rightarrow> int \<Rightarrow> int \<Rightarrow> py_error + 'a list list" where
  "frame_gen xs flen fstep =
     (case frame_shape (length xs) flen fstep of
        Inl e \<Rightarrow> Inl e
      | Inr n \<Rightarrow> Inr (map (\<lambda>i. py_slice xs (int i * fstep) (int i * fstep + flen)) [0..<n]))"

definition get_train_batch ::
  "Input \<Rightarrow> int \<Rightarrow> int \<Rightarrow> int \<Rightarrow>
   py_error + nat \<times> (complex list list \<times> complex list list) list" where
  "get_train_batch ds batchsize overlaps sps =
     (let flen = batchsize + overlaps;
          fstep = batchsize
      in case frame_gen (ds_y ds) (flen * sps) (fstep * sps) of
           Inl e \<Rightarrow> Inl e
         | Inr frames_y \<Rightarrow>
             (case frame_gen (ds_x ds) flen fstep of
                Inl e \<Rightarrow> Inl e
              | Inr frames_x \<Rightarrow>
                  (case frame_shape (length (ds_x ds)) flen fstep of
                     Inl e \<Rightarrow> Inl e
                   | Inr n_batches \<Rightarrow> Inr (n_batches, zip frames_y frames_x))))"

section \<open>The cosine-similarity loss\<close>

text \<open>
  Floats are modelled as reals. A division is the one operation of the loss that can
  leave the reals: \<open>fdiv a b\<close> is \<open>None\<close> when the divisor is zero, where the float
  result is NaN or an infinity. A matrix is the list of its rows; \<^verbatim>\<open>axis=1\<close> with
  \<^verbatim>\<open>keepdims=True\<close> works on each row. The elementwise product \<^verbatim>\<open>p * z\<close> pairs the
  entries of two operands of the same shape.
\<close>

definition fdiv :: "real \<Rightarrow> real \<Rightarrow> real option" where
  "fdiv a b = (if b = 0 then None else Some (a / b))"

definition l2_normalize :: "real list list \<Rightarrow> real \<Rightarrow> real list list option" where
  "l2_normalize x epsilon =
     those (map (\<lambda>row.
       let square_sum = sum_list (map (\<lambda>v. v\<^sup>2) row);
           x_inv_norm = sqrt (max square_sum epsilon)
       in those (map (\<lambda>v. fdiv v x_inv_norm) row)) x)"

definition mean :: "real list \<Rightarrow> real option" where
  "mean xs = fdiv (sum_list xs) (real (length xs))"

definition negative_cosine_similarity :: "real list list \<Rightarrow> real list list \<Rightarrow> real option" where
  "negative_cosine_similarity p z =
     (case l2_normalize p (1 / 10 ^ 12) of
        None \<Rightarrow> None
      | Some p' \<Rightarrow>
          (case l2_normalize z (1 / 10 ^ 12) of
             None \<Rightarrow> None
           | Some z' \<Rightarrow>
               map_option uminus
                 (mean (map2 (\<lambda>r s. sum_list (map2 (\<lambda>a b. a * b) r s)) p' z'))))"

section \<open>Differentiated values\<close>

text \<open>
  \<^verbatim>\<open>jax.value_and_grad\<close> differentiates \<^verbatim>\<open>loss_fn\<close> with respect to the trainable
  parameters. The model follows the derivative through the computation with dual
  numbers: a value together with its derivative along one direction of the parameter
  space (the tangent). The arithmetic operations carry the tangent by the usual rules,
  which are the ones JAX registers for \<^verbatim>\<open>add\<close>, \<^verbatim>\<open>mul\<close>, \<^verbatim>\<open>neg\<close>, \<^verbatim>\<open>square\<close>, \<^verbatim>\<open>div\<close>,
  \<^verbatim>\<open>sqrt\<close>, \<^verbatim>\<open>max\<close> and \<^verbatim>\<open>abs\<close>; \<^verbatim>\<open>jax.lax.stop_gradient\<close> keeps the value and sets
  the tangent to zero.
\<close>

datatype dual = Dual (primal: real) (tangent: real)

instantiation dual :: comm_ring_1
begin

definition zero_dual :: dual where
  "zero_dual = Dual 0 0"

definition one_dual :: dual where
  "one_dual = Dual 1 0"

definition plus_dual :: "dual \<Rightarrow> dual \<Rightarrow> dual" where
  "plus_dual a b = Dual (primal a + primal b) (tangent a + tangent b)"

definition uminus_dual :: "dual \<Rightarrow> dual" where
  "uminus_dual a = Dual (- primal a) (- tangent a)"

definition minus_dual :: "dual \<Rightarrow> dual \<Rightarrow> dual" where
  "minus_dual a b = Dual (primal a - primal b) (tangent a - tangent b)"

definition times_dual :: "dual \<Rightarrow> dual \<Rightarrow> dual" where
  "times_dual a b = Dual (primal a * primal b) (tangent a * primal b + primal a * tangent b)"

instance
  by standard
     (simp_all add: zero_dual_def one_dual_def plus_dual_def uminus_dual_def minus_dual_def
        times_dual_def algebra_simps)

end

definition stop_gradient :: "dual \<Rightarrow> dual" where
  "stop_gradient a = Dual (primal a) 0"

definition dmaximum :: "dual \<Rightarrow> real \<Rightarrow> dual" where
  "dmaximum a c =
     Dual (max (primal a) c)
          (tangent a * (if c < primal a then 1 else if primal a = c then 1 / 2 else 0))"

definition dsqrt :: "dual \<Rightarrow> dual option" where
  "dsqrt a =
     map_option (\<lambda>q. Dual (sqrt (primal a)) (tangent a * q)) (fdiv (1 / 2) (sqrt (primal a)))"

definition ddiv :: "dual \<Rightarrow> dual \<Rightarrow> dual option" where
  "ddiv a b =
     (if primal b = 0 then None
      else Some (Dual (primal a / primal b)
                      (tangent a / primal b - tangent b * primal a / (primal b)\<^sup>2)))"

datatype cdual = CDual (cprimal: complex) (ctangent: complex)

definition cabs :: "cdual \<Rightarrow> dual" where
  "cabs c =
     Dual (cmod (cprimal c))
          (Re (ctangent c * cnj (cprimal c)) /
             (if cmod (cprimal c) = 0 then 1 else cmod (cprimal c)))"

text \<open>The loss on dual numbers: the same operations, each carrying its tangent.\<close>

definition l2_normalize_jvp :: "dual list list \<Rightarrow> real \<Rightarrow> dual list list option" where
  "l2_normalize_jvp x epsilon =
     those (map (\<lambda>row.
       let square_sum = sum_list (map (\<lambda>v. v\<^sup>2) row)
       in case dsqrt (dmaximum square_sum epsilon) of
            None \<Rightarrow> None
          | Some x_inv_norm \<Rightarrow> those (map (\<lambda>v. ddiv v x_inv_norm) row)) x)"

definition dmean :: "dual list \<Rightarrow> dual option" where
  "dmean xs = ddiv (sum_list xs) (Dual (real (length xs)) 0)"

definition negative_cosine_similarity_jvp ::
  "dual list list \<Rightarrow> dual list list \<Rightarrow> dual option" where
  "negative_cosine_similarity_jvp p z =
     (case l2_normalize_jvp p (1 / 10 ^ 12) of
        None \<Rightarrow> None
      | Some p' \<Rightarrow>
          (case l2_normalize_jvp z (1 / 10 ^ 12) of
             None \<Rightarrow> None
           | Some z' \<Rightarrow>
               map_option uminus
                 (dmean (map2 (\<lambda>r s. sum_list (map2 (\<lambda>a b. a * b) r s)) p' z'))))"

section \<open>Signals, variables and the module\<close>

text \<open>
  \<^verbatim>\<open>core.SigTime\<close> and \<^verbatim>\<open>core.Signal\<close>: a signal is a matrix of samples with the window
  \<open>start\<close>, \<open>stop\<close> (an offset from the end, not above zero) in which its samples are
  valid. \<^verbatim>\<open>core.Signal(y)\<close> attaches the default window \<^verbatim>\<open>SigTime(0, 0, 2)\<close>.
\<close>

record SigTime =
  t_start :: int
  t_stop :: int
  t_sps :: int

record 'a Signal =
  sig_val :: "'a list list"
  sig_t :: SigTime

definition Signal :: "'a list list \<Rightarrow> 'a Signal" where
  "Signal v = \<lparr>sig_val = v, sig_t = \<lparr>t_start = 0, t_stop = 0, t_sps = 2\<rparr>\<rparr>"

text \<open>
  A parameter dictionary is flat: it maps a key path to a leaf, and a tensor is the
  family of its entries. The variables given to \<^verbatim>\<open>module.apply\<close> are a dictionary of
  collections under string keys. Inside the differentiated loss the parameter leaves are
  dual numbers; everywhere else they are reals.
\<close>

type_synonym keypath = "string list"

type_synonym aux_inputs = "keypath \<rightharpoonup> complex list list"

datatype ('c, 's) collection =
    Params "keypath \<rightharpoonup> dual"
  | Aux_inputs aux_inputs
  | Consts 'c
  | Af_state 's

type_synonym ('c, 's) variables = "string \<rightharpoonup> ('c, 's) collection"

record ('c, 's) init_variables =
  iv_params :: "keypath \<rightharpoonup> real"
  iv_af_state :: "('c, 's) variables"
  iv_aux_inputs :: aux_inputs
  iv_const :: 'c

text \<open>
  The module is opaque: \<open>layer_init\<close> is \<^verbatim>\<open>module.init(rng, signal)\<close>, which returns the
  output signal of a reference pass and the initial variables, and \<open>layer_apply\<close> is
  \<^verbatim>\<open>module.apply(variables, signal)\<close>, which returns the output signal and the
  updated state. A pass outside differentiation gets parameters of tangent zero.
\<close>

record ('c, 's) Layer =
  layer_init :: "nat \<Rightarrow> complex Signal \<Rightarrow> complex Signal \<times> ('c, 's) init_variables"
  layer_apply :: "('c, 's) variables \<Rightarrow> complex Signal \<Rightarrow> cdual Signal \<times> ('c, 's) variables"

type_synonym ('c, 's) initvar =
  "(keypath \<rightharpoonup> real) \<times> ('c, 's) variables \<times> aux_inputs \<times> 'c \<times> (keypath \<rightharpoonup> real)"

record ('c, 's) Model =
  model_module :: "('c, 's) Layer"
  initvar :: "('c, 's) initvar"
  overlaps :: int
  model_name :: string

text \<open>
  The dictionary helpers of the commplax library, on flat dictionaries:
  \<^verbatim>\<open>util.dict_merge(a, b)\<close> is the union, with \<open>b\<close> where both have a key;
  \<^verbatim>\<open>util.dict_split(d, paths)\<close> returns the entries whose key path is listed and the
  others; \<^verbatim>\<open>core.dict_replace(d, {key: v})\<close> replaces every leaf named \<open>key\<close>.
\<close>

definition dict_merge :: "('k \<rightharpoonup> 'v) \<Rightarrow> ('k \<rightharpoonup> 'v) \<Rightarrow> ('k \<rightharpoonup> 'v)" where
  "dict_merge a b = a ++ b"

definition dict_split :: "('k \<rightharpoonup> 'v) \<Rightarrow> 'k list \<Rightarrow> ('k \<rightharpoonup> 'v) \<times> ('k \<rightharpoonup> 'v)" where
  "dict_split d paths =
     ((\<lambda>k. if k \<in> set paths then d k else None), (\<lambda>k. if k \<in> set paths then None else d k))"

definition dict_replace :: "(keypath \<rightharpoonup> 'v) \<Rightarrow> string \<Rightarrow> 'v \<Rightarrow> (keypath \<rightharpoonup> 'v)" where
  "dict_replace d key v =
     (\<lambda>k. if d k \<noteq> None \<and> k \<noteq> [] \<and> last k = key then Some v else d k)"

definition no_tangent :: "('k \<rightharpoonup> real) \<Rightarrow> ('k \<rightharpoonup> dual)" where
  "no_tangent params = (\<lambda>k. map_option (\<lambda>v. Dual v 0) (params k))"

section \<open>Signal augmentation\<close>

text \<open>
  The augmentations draw from the global generator of \<^verbatim>\<open>np.random\<close>. The generator is
  made explicit as the stream of its uniform samples in \<open>[0, 1)\<close>: \<^verbatim>\<open>rand()\<close> takes the
  next sample and \<^verbatim>\<open>uniform(lo, hi)\<close> scales the next sample into \<open>[lo, hi)\<close>.
\<close>

type_synonym np_random = "nat \<Rightarrow> real"

definition rand :: "np_random \<Rightarrow> real \<times> np_random" where
  "rand rnd = (rnd 0, \<lambda>n. rnd (Suc n))"

definition uniform :: "real \<Rightarrow> real \<Rightarrow> np_random \<Rightarrow> real \<times> np_random" where
  "uniform lo hi rnd = (let (u, rnd') = rand rnd in (lo + (hi - lo) * u, rnd'))"

definition apply_transform :: "complex list list \<Rightarrow> np_random \<Rightarrow> complex list list \<times> np_random" where
  "apply_transform x rnd =
     (let (u, rnd1) = rand rnd in
      if u < 1 / 2 then
        (let (scale, rnd2) = uniform (1 / 2) 2 rnd1
         in (map (map (\<lambda>c. c * of_real scale)) x, rnd2))
      else (x, rnd1))"

definition apply_transform1 :: "complex list list \<Rightarrow> np_random \<Rightarrow> complex list list \<times> np_random" where
  "apply_transform1 x rnd =
     (let (u, rnd1) = rand rnd in
      if u < 1 / 2 then
        (let (shift, rnd2) = uniform (- 5) 5 rnd1
         in (map (map (\<lambda>c. c + of_real shift)) x, rnd2))
      else (x, rnd1))"

section \<open>The contrastive loss\<close>

text \<open>
  \<open>variables\<close> is the dictionary literal
  \<^verbatim>\<open>{'params': params, 'aux_inputs': aux, 'const': const, **state}\<close> that each call of
  \<^verbatim>\<open>module.apply\<close> is given; an entry of \<open>state\<close> replaces an earlier entry of the same
  key. \<open>loss_fn\<close> follows the source line by line: the magnitude \<^verbatim>\<open>jnp.abs\<close> of the three
  outputs, the detached magnitude \<open>z_transformed1_real1\<close> of the second view, which is
  bound and not used afterwards, and the loss of \<open>z_transformed_real\<close> and
  \<open>z_transformed_real1\<close>. The target \<open>x\<close> is a parameter that the body does not read.
\<close>

definition variables ::
  "(keypath \<rightharpoonup> dual) \<Rightarrow> aux_inputs \<Rightarrow> 'c \<Rightarrow> ('c, 's) variables \<Rightarrow> ('c, 's) variables" where
  "variables params aux const state =
     [''params'' \<mapsto> Params params, ''aux_inputs'' \<mapsto> Aux_inputs aux, ''const'' \<mapsto> Consts const]
       ++ state"

definition loss_fn ::
  "('c, 's) Layer \<Rightarrow> (keypath \<rightharpoonup> dual) \<Rightarrow> ('c, 's) variables \<Rightarrow> complex list list \<Rightarrow>
   complex list list \<Rightarrow> aux_inputs \<Rightarrow> 'c \<Rightarrow> (keypath \<rightharpoonup> dual) \<Rightarrow> np_random \<Rightarrow>
   dual option \<times> ('c, 's) variables" where
  "loss_fn module' params state y x aux const sparams rnd =
     (let params = dict_merge params sparams;
          (y_transformed, rnd1) = apply_transform y rnd;
          (y_transformed1, rnd2) = apply_transform1 y rnd1;
          (z_original, updated_state) =
             layer_apply module' (variables params aux const state) (Signal y);
          z_transformed =
             fst (layer_apply module' (variables params aux const state) (Signal y_transformed));
          z_transformed1 =
             fst (layer_apply module' (variables params aux const state) (Signal y_transformed1));
          z_original_real = map (map cabs) (sig_val z_original);
          z_transformed_real = map (map cabs) (sig_val z_transformed);
          z_transformed_real1 = map (map cabs) (sig_val z_transformed1);
          z_transformed1_real1 = map (map stop_gradient) z_transformed_real1;
          contrastive_loss = negative_cosine_similarity_jvp z_transformed_real z_transformed_real1
      in (contrastive_loss, updated_state))"

section \<open>The optimizer step\<close>

text \<open>
  \<^verbatim>\<open>jax.value_and_grad(f, has_aux=True)(params)\<close> returns the value of the loss, the
  auxiliary result and the gradient, a tree of the shape of \<open>params\<close>. The gradient
  entry of a key is the tangent of the loss along that key's direction; it is given as
  a function of the key path that is zero off the tree. \<open>None\<close> is a non-finite float.
\<close>

definition value_and_grad ::
  "((keypath \<rightharpoonup> dual) \<Rightarrow> dual option \<times> 'a) \<Rightarrow> (keypath \<rightharpoonup> real) \<Rightarrow>
   (real option \<times> 'a) \<times> (keypath \<Rightarrow> real option)" where
  "value_and_grad f params =
     (let (loss, aux) = f (no_tangent params)
      in ((map_option primal loss, aux),
          (\<lambda>k. if params k = None then Some 0
               else map_option tangent
                      (fst (f (\<lambda>j. map_option (\<lambda>v. Dual v (if j = k then 1 else 0)) (params j)))))))"

text \<open>
  The optimizer is a gradient transformation of optax, opaque here: \<open>opt_init\<close> is
  \<^verbatim>\<open>optimizer.init(params)\<close> and \<open>opt_update\<close> is
  \<^verbatim>\<open>optimizer.update(grads, opt_state, params)\<close>, whose updates have the shape of the
  parameter tree. \<^verbatim>\<open>optax.apply_updates\<close> adds the update to each parameter leaf.
\<close>

record 'os Optimizer =
  opt_init :: "(keypath \<rightharpoonup> real) \<Rightarrow> 'os"
  opt_update ::
    "(keypath \<Rightarrow> real option) \<Rightarrow> 'os \<Rightarrow> (keypath \<rightharpoonup> real) \<Rightarrow> (keypath \<Rightarrow> real) \<times> 'os"

definition apply_updates :: "(keypath \<rightharpoonup> real) \<Rightarrow> (keypath \<Rightarrow> real) \<Rightarrow> (keypath \<rightharpoonup> real)" where
  "apply_updates params updates = (\<lambda>k. map_option (\<lambda>p. p + updates k) (params k))"

definition update_step ::
  "('c, 's) Layer \<Rightarrow> 'os Optimizer \<Rightarrow> 'os \<Rightarrow> (keypath \<rightharpoonup> real) \<Rightarrow> ('c, 's) variables \<Rightarrow>
   complex list list \<Rightarrow> complex list list \<Rightarrow> aux_inputs \<Rightarrow> 'c \<Rightarrow> (keypath \<rightharpoonup> real) \<Rightarrow>
   np_random \<Rightarrow> real option \<times> 'os \<times> ('c, 's) variables \<times> (keypath \<rightharpoonup> real)" where
  "update_step module' optimizer opt_state params module_state y x aux const sparams rnd =
     (let compute_loss =
            (\<lambda>params. loss_fn module' params module_state y x aux const (no_tangent sparams) rnd);
          ((loss, new_module_state), grads) = value_and_grad compute_loss params;
          (updates, new_opt_state) = opt_update optimizer grads opt_state params;
          new_params = apply_updates params updates
      in (loss, new_opt_state, new_module_state, new_params))"

section \<open>The training loop\<close>

text \<open>
  \<^verbatim>\<open>train\<close> is a generator; its model returns the list of the tuples it yields, or the
  error raised before the first one. \<open>rnd i\<close> is the stream of random samples that the
  loss of iteration \<open>i\<close> draws from. The loop variables \<open>opt_state\<close>, \<open>params\<close>,
  \<open>module_state\<close> and \<open>aux\<close> are carried from one iteration to the next.
\<close>

fun train_loop ::
  "('c, 's) Layer \<Rightarrow> 'os Optimizer \<Rightarrow> 'c \<Rightarrow> (keypath \<rightharpoonup> real) \<Rightarrow> (nat \<Rightarrow> np_random) \<Rightarrow> int \<Rightarrow>
   nat \<Rightarrow> (complex list list \<times> complex list list) list \<Rightarrow>
   'os \<times> (keypath \<rightharpoonup> real) \<times> ('c, 's) variables \<times> aux_inputs \<Rightarrow>
   (real option \<times> (keypath \<rightharpoonup> real) \<times> ('c, 's) variables) list" where
  "train_loop module' optimizer const sparams rnd n_iter i [] vars = []"
| "train_loop module' optimizer const sparams rnd n_iter i ((y, x) # batch_gen)
       (opt_state, params, module_state, aux) =
     (if n_iter \<le> int i then []
      else
        (let aux = dict_replace aux ''truth'' x;
             (loss, opt_state, module_state, params) =
                update_step module' optimizer opt_state params module_state y x aux const
                  sparams (rnd i)
         in (loss, params, module_state) #
            train_loop module' optimizer const sparams rnd n_iter (Suc i) batch_gen
              (opt_state, params, module_state, aux)))"

definition train ::
  "('c, 's) Model \<Rightarrow> Input \<Rightarrow> int \<Rightarrow> int option \<Rightarrow> 'os Optimizer \<Rightarrow> (nat \<Rightarrow> np_random) \<Rightarrow>
   py_error + (real option \<times> (keypath \<rightharpoonup> real) \<times> ('c, 's) variables) list" where
  "train model data batch_size n_iter optimizer rnd =
     (let (params, module_state, aux, const, sparams) = initvar model;
          opt_state = opt_init optimizer params
      in case get_train_batch data batch_size (overlaps model) 2 of
           Inl e \<Rightarrow> Inl e
         | Inr (n_batch, batch_gen) \<Rightarrow>
             (let n_iter = (case n_iter of None \<Rightarrow> int n_batch | Some n \<Rightarrow> min n (int n_batch))
              in Inr (train_loop (model_module model) optimizer const sparams rnd n_iter 0
                        batch_gen (opt_state, params, module_state, aux))))"

section \<open>Evaluation\<close>

definition test ::
  "('c, 's) Model \<Rightarrow> (keypath \<rightharpoonup> real) option \<Rightarrow> Input \<Rightarrow> int \<times> int \<Rightarrow>
   (cdual list list \<Rightarrow> complex list list \<Rightarrow> real \<Rightarrow> int \<times> int \<Rightarrow> 'm) \<Rightarrow> 'm \<times> cdual Signal" where
  "test model params data eval_range metric_fn =
     (let (state, aux, const, sparams) = snd (initvar model);
          aux = dict_replace aux ''truth'' (ds_x data);
          params = (case params of None \<Rightarrow> fst (initvar model) | Some p \<Rightarrow> p);
          z = fst (layer_apply (model_module model)
                     (variables (no_tangent (dict_merge params sparams)) aux const state)
                     (Signal (ds_y data)));
          metric = metric_fn (sig_val z)
                     (py_slice (ds_x data) (t_start (sig_t z)) (t_stop (sig_t z)))
                     (sqrt 10) eval_range
      in (metric, z))"

section \<open>Model initialisation\<close>

text \<open>
  \<open>base_conf\<close> holds the keyword arguments of \<^verbatim>\<open>make_base_module\<close> other than \<open>w0\<close>.
  \<open>sem\<close> is the behaviour that the commplax library gives to a stack of layers.
\<close>

record ('d, 'n) base_conf =
  conf_steps :: int
  conf_dtaps :: int
  conf_ntaps :: int
  conf_rtaps :: int
  conf_init_fn :: "'d \<times> 'n"
  conf_mode :: string

definition model_init ::
  "(('d, 'n) Serial \<Rightarrow> ('c, 's) Layer) \<Rightarrow> Input \<Rightarrow> ('d, 'n) base_conf \<Rightarrow> keypath list \<Rightarrow>
   int \<Rightarrow> int \<Rightarrow> string \<Rightarrow> py_error + ('c, 's) Model" where
  "model_init sem data base_conf sparams_flatkeys n_symbols sps name =
     (case make_base_module (conf_steps base_conf) (conf_dtaps base_conf) (conf_ntaps base_conf)
             (conf_rtaps base_conf) (conf_init_fn base_conf) (ds_w0 data) (conf_mode base_conf) of
        Inl e \<Rightarrow> Inl e
      | Inr base \<Rightarrow>
          (let mod' = sem base;
               y0 = py_slice (ds_y data) 0 (n_symbols * sps);
               rng0 = 0;
               (z0, v0) = layer_init mod' rng0 (Signal y0);
               ol = t_start (sig_t z0) - t_stop (sig_t z0);
               (sparams, params) = dict_split (iv_params v0) sparams_flatkeys;
               state = iv_af_state v0;
               aux = iv_aux_inputs v0;
               const = iv_const v0
           in Inr \<lparr>model_module = mod', initvar = (params, state, aux, const, sparams),
                    overlaps = ol, model_name = name\<rparr>))"

section \<open>The loss in floating-point arithmetic\<close>

text \<open>
  The arrays of the loss hold binary32 floats, the default of JAX and the dtype of the
  initialisers in \<^verbatim>\<open>fdbp_init\<close>, or binary64 floats when JAX is configured for them.
  A float is a real number of the format, an infinity or NaN; the sign of a zero is not
  modelled. The format has \<open>prec\<close> significant bits and exponents from \<open>emin\<close> to
  \<open>emax\<close>.
\<close>

datatype fval = Fin real | PInf | NInf | NaN

datatype dtype = Float32 | Float64

fun prec :: "dtype \<Rightarrow> int" where
  "prec Float32 = 24"
| "prec Float64 = 53"

fun emin :: "dtype \<Rightarrow> int" where
  "emin Float32 = - 126"
| "emin Float64 = - 1022"

fun emax :: "dtype \<Rightarrow> int" where
  "emax Float32 = 127"
| "emax Float64 = 1023"

text \<open>
  \<open>fround\<close> rounds a real number to the nearest float of the format, a tie to the even
  significand (\<open>rne\<close>). \<open>quantum\<close> is the spacing of the floats around the number; below
  \<open>2\<^sup>e\<^sup>m\<^sup>i\<^sup>n\<close> it is the spacing of the subnormal numbers. A rounded
  magnitude of \<open>2\<^sup>e\<^sup>m\<^sup>a\<^sup>x\<^sup>+\<^sup>1\<close> or more is an infinity.
\<close>

definition rne :: "real \<Rightarrow> int" where
  "rne t =
     (let f = \<lfloor>t\<rfloor>; r = t - of_int f
      in if r < 1 / 2 then f
         else if 1 / 2 < r then f + 1
         else if even f then f else f + 1)"

definition quantum :: "dtype \<Rightarrow> real \<Rightarrow> real" where
  "quantum dt x = 2 powi (max \<lfloor>log 2 \<bar>x\<bar>\<rfloor> (emin dt) - (prec dt - 1))"

definition fround :: "dtype \<Rightarrow> real \<Rightarrow> fval" where
  "fround dt x =
     (if x = 0 then Fin 0
      else
        (let q = quantum dt x;
             y = of_int (rne (x / q)) * q
         in if 2 powi (emax dt + 1) \<le> \<bar>y\<bar> then (if 0 < x then PInf else NInf)
            else Fin y))"

text \<open>
  Each operation rounds the exact result once and follows IEEE 754 on infinities and NaN.
  A nonzero number divided by zero is given the sign of the numerator.
  \<^verbatim>\<open>jnp.maximum\<close> returns NaN when an operand is NaN. \<open>fsum\<close> is \<^verbatim>\<open>jnp.sum\<close> along a
  row, adding the entries from left to right.
\<close>

fun fadd :: "dtype \<Rightarrow> fval \<Rightarrow> fval \<Rightarrow> fval" where
  "fadd dt (Fin a) (Fin b) = fround dt (a + b)"
| "fadd dt NaN b = NaN"
| "fadd dt a NaN = NaN"
| "fadd dt PInf NInf = NaN"
| "fadd dt NInf PInf = NaN"
| "fadd dt PInf b = PInf"
| "fadd dt a PInf = PInf"
| "fadd dt NInf b = NInf"
| "fadd dt a NInf = NInf"

fun fneg :: "fval \<Rightarrow> fval" where
  "fneg (Fin a) = Fin (- a)"
| "fneg PInf = NInf"
| "fneg NInf = PInf"
| "fneg NaN = NaN"

fun fmul :: "dtype \<Rightarrow> fval \<Rightarrow> fval \<Rightarrow> fval" where
  "fmul dt (Fin a) (Fin b) = fround dt (a * b)"
| "fmul dt NaN b = NaN"
| "fmul dt a NaN = NaN"
| "fmul dt (Fin a) PInf = (if a = 0 then NaN else if 0 < a then PInf else NInf)"
| "fmul dt (Fin a) NInf = (if a = 0 then NaN else if 0 < a then NInf else PInf)"
| "fmul dt PInf (Fin b) = (if b = 0 then NaN else if 0 < b then PInf else NInf)"
| "fmul dt NInf (Fin b) = (if b = 0 then NaN else if 0 < b then NInf else PInf)"
| "fmul dt PInf PInf = PInf"
| "fmul dt NInf NInf = PInf"
| "fmul dt PInf NInf = NInf"
| "fmul dt NInf PInf = NInf"

fun fdivide :: "dtype \<Rightarrow> fval \<Rightarrow> fval \<Rightarrow> fval" where
  "fdivide dt (Fin a) (Fin b) =
     (if b = 0 then (if a = 0 then NaN else if 0 < a then PInf else NInf)
      else fround dt (a / b))"
| "fdivide dt NaN b = NaN"
| "fdivide dt a NaN = NaN"
| "fdivide dt (Fin a) PInf = Fin 0"
| "fdivide dt (Fin a) NInf = Fin 0"
| "fdivide dt PInf (Fin b) = (if 0 \<le> b then PInf else NInf)"
| "fdivide dt NInf (Fin b) = (if 0 \<le> b then NInf else PInf)"
| "fdivide dt a b = NaN"

fun fsqrt :: "dtype \<Rightarrow> fval \<Rightarrow> fval" where
  "fsqrt dt (Fin a) = (if a < 0 then NaN else fround dt (sqrt a))"
| "fsqrt dt PInf = PInf"
| "fsqrt dt NInf = NaN"
| "fsqrt dt NaN = NaN"

fun fmaximum :: "fval \<Rightarrow> fval \<Rightarrow> fval" where
  "fmaximum (Fin a) (Fin b) = Fin (max a b)"
| "fmaximum NaN b = NaN"
| "fmaximum a NaN = NaN"
| "fmaximum PInf b = PInf"
| "fmaximum a PInf = PInf"
| "fmaximum NInf b = b"
| "fmaximum a NInf = a"

definition fsum :: "dtype \<Rightarrow> fval list \<Rightarrow> fval" where
  "fsum dt xs = foldl (fadd dt) (Fin 0) xs"

text \<open>
  \<open>epsilon_literal\<close> is the Python float \<^verbatim>\<open>1e-12\<close>, the binary64 number nearest to
  \<open>10\<^sup>-\<^sup>1\<^sup>2\<close>; \<^verbatim>\<open>jnp.maximum\<close> converts it to the dtype of the array. The two
  functions are \<^verbatim>\<open>l2_normalize\<close> with \<^verbatim>\<open>axis=1\<close> and
  \<^verbatim>\<open>negative_cosine_similarity\<close> on arrays of the dtype \<open>dt\<close>; \<open>fmean\<close> is \<^verbatim>\<open>jnp.mean\<close>,
  the sum divided by the number of entries as a float.
\<close>

definition epsilon_literal :: real where
  "epsilon_literal = (case fround Float64 (1 / 10 ^ 12) of Fin e \<Rightarrow> e | _ \<Rightarrow> 0)"

definition l2_normalize_float :: "dtype \<Rightarrow> fval list list \<Rightarrow> real \<Rightarrow> fval list list" where
  "l2_normalize_float dt x epsilon =
     map (\<lambda>row.
       let square_sum = fsum dt (map (\<lambda>v. fmul dt v v) row);
           x_inv_norm = fsqrt dt (fmaximum square_sum (fround dt epsilon))
       in map (\<lambda>v. fdivide dt v x_inv_norm) row) x"

definition fmean :: "dtype \<Rightarrow> fval list \<Rightarrow> fval" where
  "fmean dt xs = fdivide dt (fsum dt xs) (fround dt (real (length xs)))"

definition negative_cosine_similarity_float :: "dtype \<Rightarrow> fval list list \<Rightarrow> fval list list \<Rightarrow> fval" where
  "negative_cosine_similarity_float dt p z =
     (let p' = l2_normalize_float dt p epsilon_literal;
          z' = l2_normalize_float dt z epsilon_literal
      in fneg (fmean dt (map2 (\<lambda>r s. fsum dt (map2 (\<lambda>a b. fmul dt a b) r s)) p' z')))"

section \<open>A small module for concrete checks\<close>

text \<open>
  A module with one scalar parameter \<open>w\<close>, used where a property is checked on concrete
  data. It works on rows of two samples: the first sample of a row is multiplied by
  \<open>w\<close> when its real part is above \<open>2\<close>, every other sample is passed on unchanged.
  The state is empty and the validity window loses two samples at each end.
\<close>

definition probe_weight :: "(unit, unit) variables \<Rightarrow> dual" where
  "probe_weight vars =
     (case vars ''params'' of
        Some (Params p) \<Rightarrow> (case p [''w''] of Some d \<Rightarrow> d | None \<Rightarrow> 1)
      | _ \<Rightarrow> 1)"

definition probe_row :: "dual \<Rightarrow> complex list \<Rightarrow> cdual list" where
  "probe_row w row =
     (case row of
        [a, b] \<Rightarrow>
          [if 2 < Re a then CDual (a * of_real (primal w)) (a * of_real (tangent w))
           else CDual a 0,
           CDual b 0]
      | _ \<Rightarrow> map (\<lambda>c. CDual c 0) row)"

definition probe_module :: "(unit, unit) Layer" where
  "probe_module =
     \<lparr>layer_init = (\<lambda>rng s.
        (\<lparr>sig_val = sig_val s, sig_t = \<lparr>t_start = 2, t_stop = - 2, t_sps = 2\<rparr>\<rparr>,
         \<lparr>iv_params = [[''w''] \<mapsto> 1, [''b''] \<mapsto> 0], iv_af_state = Map.empty,
          iv_aux_inputs = Map.empty, iv_const = ()\<rparr>)),
      layer_apply = (\<lambda>vars s.
        (\<lparr>sig_val = map (probe_row (probe_weight vars)) (sig_val s),
          sig_t = \<lparr>t_start = 2, t_stop = - 2, t_sps = 2\<rparr>\<rparr>,
         Map.empty))\<rparr>"

text \<open>
  A stream of random samples for the concrete checks: the first augmentation draws
  \<open>0.7\<close> and leaves the batch as it is; the second draws \<open>0.2\<close> and then \<open>0.9\<close>, which
  is the shift \<open>-5 + 10 * 0.9 = 4\<close>.
\<close>

definition probe_rnd :: np_random where
  "probe_rnd = (\<lambda>n. if n = 0 then 7 / 10 else if n = 1 then 1 / 5 else 9 / 10)"

text \<open>
  The same module, except that a pass over a signal other than \<open>[[-1, 0]]\<close> returns a
  state that is not empty.
\<close>

definition probe_module' :: "(unit, unit) Layer" where
  "probe_module' =
     probe_module\<lparr>layer_apply := (\<lambda>vars s.
        (fst (layer_apply probe_module vars s),
         if s = Signal [[- 1, 0]] then Map.empty else [''mark'' \<mapsto> Af_state ()]))\<rparr>"

text \<open>
  An optimizer (plain gradient descent that counts its steps), a dataset of five symbols
  at two samples per symbol, a configuration, and a metric that counts the reference
  symbols it is given, for the concrete checks.
\<close>

definition probe_optimizer :: "nat Optimizer" where
  "probe_optimizer =
     \<lparr>opt_init = (\<lambda>params. 0),
      opt_update = (\<lambda>grads opt_state params.
        ((\<lambda>k. case grads k of Some g \<Rightarrow> - (g / 10) | None \<Rightarrow> 0), Suc opt_state))\<rparr>"

definition probe_data :: Input where
  "probe_data =
     \<lparr>ds_y = [[1], [2], [3], [4], [5], [6], [7], [8], [9], [10]],
      ds_x = [[1], [2], [3], [4], [5]], ds_w0 = 0\<rparr>"

definition probe_conf :: "(unit, unit) base_conf" where
  "probe_conf =
     \<lparr>conf_steps = 3, conf_dtaps = 261, conf_ntaps = 41, conf_rtaps = 61,
      conf_init_fn = ((), ()), conf_mode = ''train''\<rparr>"

definition probe_metric :: "cdual list list \<Rightarrow> complex list list \<Rightarrow> real \<Rightarrow> int \<times> int \<Rightarrow> nat" where
  "probe_metric estimate reference scale eval_range = length reference"

section \<open>Notions used in the statements\<close>


definition square_sum :: "real list \<Rightarrow> real" where
  "square_sum row = sum_list (map (\<lambda>v. v\<^sup>2) row)"

definition normalized_row :: "real list \<Rightarrow> real list" where
  "normalized_row row = map (\<lambda>v. v / sqrt (max (square_sum row) (1 / 10 ^ 12))) row"

definition row_cosine :: "real list \<Rightarrow> real list \<Rightarrow> real" where
  "row_cosine r s = sum_list (map2 (\<lambda>a b. a * b) (normalized_row r) (normalized_row s))"



definition pos_ge :: "real \<Rightarrow> fval \<Rightarrow> bool" where
  "pos_ge L v \<longleftrightarrow> v = PInf \<or> (\<exists>y. v = Fin y \<and> L \<le> y)"




section \<open>Theorems\<close>

subsection \<open>Module construction\<close>

lemma assert_taps_2:
  "assert_taps dtaps ntaps rtaps 2 =
     (if even dtaps then Inl (AssertionError ''dtaps'' dtaps)
      else if even ntaps then Inl (AssertionError ''ntaps'' ntaps)
      else if even rtaps then Inl (AssertionError ''rtaps'' rtaps)
      else Inr ())"
  by (simp add: assert_taps_def even_iff_mod_2_eq_zero)

lemma make_base_module_even:
  assumes "even dtaps \<or> even ntaps \<or> even rtaps"
  shows "make_base_module steps dtaps ntaps rtaps init_fn w0 mode =
           Inl (if even dtaps then AssertionError ''dtaps'' dtaps
                else if even ntaps then AssertionError ''ntaps'' ntaps
                else AssertionError ''rtaps'' rtaps)"
  using assms by (auto simp: make_base_module_def assert_taps_2)

lemma make_base_module_mode:
  assumes "odd dtaps" "odd ntaps" "odd rtaps" "mode \<noteq> ''train''" "mode \<noteq> ''test''"
  shows "make_base_module steps dtaps ntaps rtaps init_fn w0 mode =
           Inl (ValueError (''invalid mode '' @ mode))"
  using assms by (simp add: make_base_module_def assert_taps_2 split: prod.splits)

lemma model_init_construction_error:
  assumes "make_base_module (conf_steps base_conf) (conf_dtaps base_conf) (conf_ntaps base_conf)
             (conf_rtaps base_conf) (conf_init_fn base_conf) (ds_w0 data) (conf_mode base_conf) = Inl e"
  shows "model_init sem data base_conf sparams_flatkeys n_symbols sps name = Inl e"
  using assms by (simp add: model_init_def)

text \<open>
  Claim C7. A configuration error is raised when the module is constructed, and no module
  is returned: \<open>make_base_module\<close> fails for every mode other than \<open>train\<close> and \<open>test\<close>
  (with \<open>ValueError\<close> when the tap counts pass), and fails with an assertion error naming
  the tap count and its value when one of \<open>dtaps\<close>, \<open>ntaps\<close>, \<open>rtaps\<close> is even.
  \<open>model_init\<close> then fails with the same error, before the module is initialised and before
  any batch exists.
\<close>

theorem make_base_module_rejects_configuration:
  "(mode \<noteq> ''train'' \<and> mode \<noteq> ''test'' \<longrightarrow>
      (\<exists>e. make_base_module steps dtaps ntaps rtaps init_fn (ds_w0 data) mode = Inl e \<and>
           model_init sem data
             \<lparr>conf_steps = steps, conf_dtaps = dtaps, conf_ntaps = ntaps, conf_rtaps = rtaps,
              conf_init_fn = init_fn, conf_mode = mode\<rparr>
             sparams_flatkeys n_symbols sps name = Inl e)) \<and>
   (odd dtaps \<and> odd ntaps \<and> odd rtaps \<and> mode \<noteq> ''train'' \<and> mode \<noteq> ''test'' \<longrightarrow>
      make_base_module steps dtaps ntaps rtaps init_fn w0 mode =
        Inl (ValueError (''invalid mode '' @ mode))) \<and>
   (even dtaps \<or> even ntaps \<or> even rtaps \<longrightarrow>
      make_base_module steps dtaps ntaps rtaps init_fn w0 mode =
        Inl (if even dtaps then AssertionError ''dtaps'' dtaps
             else if even ntaps then AssertionError ''ntaps'' ntaps
             else AssertionError ''rtaps'' rtaps) \<and>
      model_init sem data
        \<lparr>conf_steps = steps, conf_dtaps = dtaps, conf_ntaps = ntaps, conf_rtaps = rtaps,
         conf_init_fn = init_fn, conf_mode = mode\<rparr>
        sparams_flatkeys n_symbols sps name =
        Inl (if even dtaps then AssertionError ''dtaps'' dtaps
             else if even ntaps then AssertionError ''ntaps'' ntaps
             else AssertionError ''rtaps'' rtaps))"
proof -
  let ?conf = "\<lparr>conf_steps = steps, conf_dtaps = dtaps, conf_ntaps = ntaps, conf_rtaps = rtaps,
                conf_init_fn = init_fn, conf_mode = mode\<rparr>"
  let ?E = "if even dtaps then AssertionError ''dtaps'' dtaps
            else if even ntaps then AssertionError ''ntaps'' ntaps
            else AssertionError ''rtaps'' rtaps"
  have a: "make_base_module steps dtaps ntaps rtaps init_fn w mode = Inl ?E"
    if "even dtaps \<or> even ntaps \<or> even rtaps" for w
    using that by (rule make_base_module_even)
  have b: "make_base_module steps dtaps ntaps rtaps init_fn w mode =
        Inl (ValueError (''invalid mode '' @ mode))"
    if "odd dtaps \<and> odd ntaps \<and> odd rtaps" "mode \<noteq> ''train'' \<and> mode \<noteq> ''test''" for w
    using that by (simp add: make_base_module_mode)
  have d: "model_init sem data ?conf sparams_flatkeys n_symbols sps name = Inl e"
    if "make_base_module steps dtaps ntaps rtaps init_fn (ds_w0 data) mode = Inl e" for e
    using that by (simp add: model_init_construction_error)
  have c: "\<exists>e. make_base_module steps dtaps ntaps rtaps init_fn (ds_w0 data) mode = Inl e \<and>
             model_init sem data ?conf sparams_flatkeys n_symbols sps name = Inl e"
    if m: "mode \<noteq> ''train'' \<and> mode \<noteq> ''test''"
  proof (cases "even dtaps \<or> even ntaps \<or> even rtaps")
    case True
    from a[OF True] d show ?thesis by blast
  next
    case False
    then have "odd dtaps \<and> odd ntaps \<and> odd rtaps" by simp
    from b[OF this m] d show ?thesis by blast
  qed
  from a d have e: "make_base_module steps dtaps ntaps rtaps init_fn w0 mode = Inl ?E \<and>
      model_init sem data ?conf sparams_flatkeys n_symbols sps name = Inl ?E"
    if "even dtaps \<or> even ntaps \<or> even rtaps"
    using that by blast
  from b[of w0] c e show ?thesis by blast
qed

theorem make_base_module_rejects_configuration_witness:
  "make_base_module 3 261 41 61 ((), ()) 0 ''eval'' = Inl (ValueError ''invalid mode eval'') \<and>
   make_base_module 3 261 40 61 ((), ()) 0 ''train'' = Inl (AssertionError ''ntaps'' 40) \<and>
   model_init (\<lambda>b. probe_module) \<lparr>ds_y = [], ds_x = [], ds_w0 = 0\<rparr>
     \<lparr>conf_steps = 3, conf_dtaps = 261, conf_ntaps = 40, conf_rtaps = 61,
      conf_init_fn = ((), ()), conf_mode = ''train''\<rparr> [] 4000 2 ''Model'' =
     Inl (AssertionError ''ntaps'' 40)"
proof -
  have h1: "''eval'' \<noteq> ''train'' \<and> ''eval'' \<noteq> ''test''" by simp
  have h2: "odd (261::int) \<and> odd (41::int) \<and> odd (61::int) \<and>
            ''eval'' \<noteq> ''train'' \<and> ''eval'' \<noteq> ''test''"
    by simp
  have h3: "even (261::int) \<or> even (40::int) \<or> even (61::int)" by simp
  show ?thesis
    using h1 h2 h3
      make_base_module_rejects_configuration[of "''eval''" 3 261 41 61 "((), ())"
        "\<lparr>ds_y = [], ds_x = [], ds_w0 = 0\<rparr>" "\<lambda>b. probe_module" "[]" 4000 2 "''Model''" 0]
      make_base_module_rejects_configuration[of "''train''" 3 261 40 61 "((), ())"
        "\<lparr>ds_y = [], ds_x = [], ds_w0 = 0\<rparr>" "\<lambda>b. probe_module" "[]" 4000 2 "''Model''" 0]
    by simp
qed

subsection \<open>Batch windowing\<close>

lemma py_slice_nat:
  "py_slice xs (int a) (int a + int m) = take m (drop a xs)"
proof -
  have "take (min (length xs) (a + m) - min (length xs) a) (drop (min (length xs) a) xs)
        = take m (drop a xs)"
  proof (cases "a \<le> length xs")
    case True
    then show ?thesis by (cases "a + m \<le> length xs") (simp_all add: min_def)
  next
    case False
    then show ?thesis by (simp add: min_def)
  qed
  then show ?thesis
    by (simp add: py_slice_def py_bound_def nat_add_distrib)
qed

lemma frame_shape_nat:
  assumes "0 < fstep"
  shows "frame_shape n (int flen) (int fstep) =
           Inr (if n < flen then 0 else (n - flen) div fstep + 1)"
proof (cases "n < flen")
  case True
  then show ?thesis by (simp add: frame_shape_def)
next
  case False
  then have "int n - (int flen - int fstep) = int (n - flen + fstep)" by simp
  then have "(int n - (int flen - int fstep)) div int fstep = int ((n - flen + fstep) div fstep)"
    by (simp only: zdiv_int)
  moreover have "(n - flen + fstep) div fstep = (n - flen) div fstep + 1"
    using assms by simp
  ultimately have "nat ((int n - (int flen - int fstep)) div int fstep) = (n - flen) div fstep + 1"
    by (simp only: nat_int)
  with False assms show ?thesis by (simp add: frame_shape_def)
qed

lemma frame_gen_nat:
  assumes "0 < fstep"
  shows "frame_gen xs (int flen) (int fstep) =
           Inr (map (\<lambda>i. take flen (drop (i * fstep) xs))
                  [0..<(if length xs < flen then 0 else (length xs - flen) div fstep + 1)])"
proof -
  have "\<And>i. py_slice xs (int i * int fstep) (int i * int fstep + int flen) = take flen (drop (i * fstep) xs)"
    using py_slice_nat[of xs "_ * fstep" flen] by simp
  then show ?thesis
    by (simp add: frame_gen_def frame_shape_nat[OF assms] del: upt_Suc)
qed

lemma window_count:
  assumes "0 < (B::nat)"
  shows "(if L < B + O' then 0 else (L - (B + O')) div B + 1) = (L - O') div B"
proof (cases "L < B + O'")
  case True
  with assms have "L - O' < B" by arith
  with True show ?thesis by simp
next
  case False
  then have "L - O' = (L - (B + O')) + B" by simp
  then have "(L - O') div B = (L - (B + O')) div B + 1"
    using assms by (metis div_add_self2 less_numeral_extra(3))
  with False show ?thesis by simp
qed

lemma window_count_sps:
  assumes "0 < (B::nat)" "0 < (sps::nat)"
  shows "(if L * sps < (B + O') * sps then 0 else (L * sps - (B + O') * sps) div (B * sps) + 1)
           = (L - O') div B"
proof -
  have "(L * sps - (B + O') * sps) div (B * sps) = (L - (B + O')) div B"
    using assms by (simp add: diff_mult_distrib[symmetric])
  moreover have "L * sps < (B + O') * sps \<longleftrightarrow> L < B + O'"
    using assms by simp
  ultimately show ?thesis using window_count[OF assms(1), of L O'] by presburger
qed

lemma get_train_batch_nat:
  assumes "0 < B" "0 < sps" "length (ds_y ds) = length (ds_x ds) * sps"
  shows "get_train_batch ds (int B) (int O') (int sps) =
           Inr ((length (ds_x ds) - O') div B,
                map (\<lambda>i. (take ((B + O') * sps) (drop (i * (B * sps)) (ds_y ds)),
                          take (B + O') (drop (i * B) (ds_x ds))))
                  [0..<(length (ds_x ds) - O') div B])"
proof -
  let ?n = "(length (ds_x ds) - O') div B"
  have p: "0 < B * sps" using assms by simp
  have "frame_gen (ds_y ds) (int ((B + O') * sps)) (int (B * sps)) =
          Inr (map (\<lambda>i. take ((B + O') * sps) (drop (i * (B * sps)) (ds_y ds))) [0..<?n])"
    unfolding frame_gen_nat[OF p] assms(3) window_count_sps[OF assms(1,2)] ..
  then have fy: "frame_gen (ds_y ds) ((int B + int O') * int sps) (int B * int sps) =
          Inr (map (\<lambda>i. take ((B + O') * sps) (drop (i * (B * sps)) (ds_y ds))) [0..<?n])"
    by simp
  have "frame_gen (ds_x ds) (int (B + O')) (int B) =
          Inr (map (\<lambda>i. take (B + O') (drop (i * B) (ds_x ds))) [0..<?n])"
    unfolding frame_gen_nat[OF assms(1)] window_count[OF assms(1)] ..
  then have fx: "frame_gen (ds_x ds) (int B + int O') (int B) =
          Inr (map (\<lambda>i. take (B + O') (drop (i * B) (ds_x ds))) [0..<?n])"
    by simp
  have "frame_shape (length (ds_x ds)) (int (B + O')) (int B) = Inr ?n"
    unfolding frame_shape_nat[OF assms(1)] window_count[OF assms(1)] ..
  then have fs: "frame_shape (length (ds_x ds)) (int B + int O') (int B) = Inr ?n"
    by simp
  show ?thesis
    unfolding get_train_batch_def Let_def fy fx fs
    by (simp add: zip_map_map zip_same_conv_map del: upt_Suc)
qed

text \<open>
  Claim C3. For a batch size \<open>B > 0\<close>, samples per symbol \<open>sps > 0\<close>, an overlap \<open>Ov\<close>
  not above the number \<open>L\<close> of symbols, and a waveform of \<open>L * sps\<close> samples,
  \<open>get_train_batch\<close> produces \<open>floor ((L - Ov) / B)\<close> batches (\<open>div\<close> on integers is the
  floor division). The input view of batch \<open>i\<close> is the \<open>(B + Ov) * sps\<close> samples from
  \<open>i * B * sps\<close>, its target view the \<open>B + Ov\<close> symbols from \<open>i * B\<close>, and the last
  \<open>Ov\<close> symbols (\<open>Ov * sps\<close> samples) of a window are the first of the next one.
\<close>

theorem get_train_batch_windows:
  assumes "0 < B" and "0 < sps" and "Ov \<le> L"
    and "length (ds_x ds) = L" and "length (ds_y ds) = L * sps"
  shows "\<exists>n batches.
           get_train_batch ds (int B) (int Ov) (int sps) = Inr (n, batches) \<and>
           length batches = n \<and>
           int n = (int L - int Ov) div int B \<and>
           (\<forall>i<n. length (fst (batches ! i)) = (B + Ov) * sps \<and>
                  length (snd (batches ! i)) = B + Ov \<and>
                  fst (batches ! i) = take ((B + Ov) * sps) (drop (i * (B * sps)) (ds_y ds)) \<and>
                  snd (batches ! i) = take (B + Ov) (drop (i * B) (ds_x ds))) \<and>
           (\<forall>i. Suc i < n \<longrightarrow>
                  drop (B * sps) (fst (batches ! i)) = take (Ov * sps) (fst (batches ! Suc i)) \<and>
                  drop B (snd (batches ! i)) = take Ov (snd (batches ! Suc i)))"
proof -
  let ?n = "(L - Ov) div B"
  let ?fy = "\<lambda>i. take ((B + Ov) * sps) (drop (i * (B * sps)) (ds_y ds))"
  let ?fx = "\<lambda>i. take (B + Ov) (drop (i * B) (ds_x ds))"
  let ?bs = "map (\<lambda>i. (?fy i, ?fx i)) [0..<?n]"
  have g: "get_train_batch ds (int B) (int Ov) (int sps) = Inr (?n, ?bs)"
    using get_train_batch_nat[of B sps ds Ov] assms by simp
  have cnt: "int ?n = (int L - int Ov) div int B"
    using assms(3) by (simp add: zdiv_int of_nat_diff)
  have fit: "i * B + (B + Ov) \<le> L" if "i < ?n" for i
  proof -
    from that have "Suc i \<le> ?n" by simp
    then have "Suc i * B \<le> ?n * B" by (rule mult_le_mono1)
    also have "?n * B \<le> L - Ov" by simp
    finally show ?thesis using assms(3) by (simp add: algebra_simps)
  qed
  have len: "length (?fy i) = (B + Ov) * sps \<and> length (?fx i) = B + Ov" if "i < ?n" for i
  proof -
    have "(i * B + (B + Ov)) * sps \<le> L * sps"
      using fit[OF that] by (rule mult_le_mono1)
    then have "(B + Ov) * sps \<le> L * sps - i * (B * sps)"
      by (simp add: algebra_simps)
    moreover have "B + Ov \<le> L - i * B" using fit[OF that] by simp
    ultimately show ?thesis using assms(4,5) by simp
  qed
  have ovl: "drop (B * sps) (?fy i) = take (Ov * sps) (?fy (Suc i)) \<and>
             drop B (?fx i) = take Ov (?fx (Suc i))" for i
    by (simp add: drop_take algebra_simps min_def)
  show ?thesis
    unfolding g using cnt len ovl by (simp del: upt_Suc)
qed

theorem get_train_batch_windows_witness:
  "get_train_batch
     \<lparr>ds_y = [[1], [2], [3], [4], [5], [6], [7], [8], [9], [10]],
      ds_x = [[1], [2], [3], [4], [5]], ds_w0 = 0\<rparr> 2 1 2 =
   Inr (2, [([[1], [2], [3], [4], [5], [6]], [[1], [2], [3]]),
            ([[5], [6], [7], [8], [9], [10]], [[3], [4], [5]])])"
proof -
  let ?ds = "\<lparr>ds_y = [[1], [2], [3], [4], [5], [6], [7], [8], [9], [10]],
              ds_x = [[1], [2], [3], [4], [5::complex]], ds_w0 = 0\<rparr>"
  have h: "(0::nat) < 2" "(1::nat) \<le> 5" "length (ds_x ?ds) = 5" "length (ds_y ?ds) = 5 * 2"
    by simp_all
  from get_train_batch_windows[OF h(1) h(1) h(2) h(3) h(4)]
  obtain n batches where
    g: "get_train_batch ?ds 2 1 2 = Inr (n, batches)" and l: "length batches = n" and
    c: "int n = (int 5 - int 1) div int 2" and
    w: "\<forall>i<n. fst (batches ! i) = take ((2 + 1) * 2) (drop (i * (2 * 2)) (ds_y ?ds)) \<and>
              snd (batches ! i) = take (2 + 1) (drop (i * 2) (ds_x ?ds))"
    by auto
  from c have n: "n = 2" by simp
  from w n have "batches ! 0 = ([[1], [2], [3], [4], [5], [6]], [[1], [2], [3]])"
    and "batches ! 1 = ([[5], [6], [7], [8], [9], [10]], [[3], [4], [5]])"
    by (simp_all add: prod_eq_iff)
  with l n have "batches = [([[1], [2], [3], [4], [5], [6]], [[1], [2], [3]]),
            ([[5], [6], [7], [8], [9], [10]], [[3], [4], [5]])]"
    by (simp add: list_eq_iff_nth_eq less_Suc_eq numeral_2_eq_2)
  with g n show ?thesis by simp
qed

subsection \<open>The cosine-similarity loss\<close>

lemma those_map_Some: "those (map (\<lambda>x. Some (f x)) xs) = Some (map f xs)"
  by (induction xs) simp_all

lemma square_sum_nonneg: "0 \<le> square_sum row"
  unfolding square_sum_def by (rule sum_list_nonneg) auto

lemma norm_floor_pos: "0 < sqrt (max (square_sum row) (1 / 10 ^ 12))"
  by (simp add: max_def)

lemma l2_normalize_eq: "l2_normalize x (1 / 10 ^ 12) = Some (map normalized_row x)"
proof -
  have "(\<lambda>row. let ss = sum_list (map (\<lambda>v. v\<^sup>2) row); d = sqrt (max ss (1 / 10 ^ 12))
               in those (map (\<lambda>v. fdiv v d) row)) = (\<lambda>row. Some (normalized_row row))"
  proof
    fix row :: "real list"
    have "sqrt (max (square_sum row) (1 / 10 ^ 12)) \<noteq> 0"
      using norm_floor_pos[of row] by simp
    then show "(let ss = sum_list (map (\<lambda>v. v\<^sup>2) row); d = sqrt (max ss (1 / 10 ^ 12))
               in those (map (\<lambda>v. fdiv v d) row)) = Some (normalized_row row)"
      unfolding Let_def fdiv_def normalized_row_def square_sum_def[symmetric]
      by (simp only: if_False those_map_Some)
  qed
  then show ?thesis
    unfolding l2_normalize_def by (simp only: those_map_Some)
qed

lemma negative_cosine_similarity_eq:
  "negative_cosine_similarity p z = map_option uminus (mean (map2 row_cosine p z))"
proof -
  have "map2 (\<lambda>r s. sum_list (map2 (\<lambda>a b. a * b) r s)) (map normalized_row p) (map normalized_row z)
        = map2 row_cosine p z"
    by (simp add: zip_map_map row_cosine_def split_def)
  then show ?thesis
    unfolding negative_cosine_similarity_def l2_normalize_eq by simp
qed

lemma row_cosine_commute: "row_cosine r s = row_cosine s r"
proof -
  have "sum_list (map2 (\<lambda>a b. a * b) xs ys) = sum_list (map2 (\<lambda>a b. a * b) ys xs)"
    for xs ys :: "real list"
    by (induction xs ys rule: list_induct2') (simp_all add: mult.commute)
  then show ?thesis by (simp add: row_cosine_def)
qed

lemma map2_row_cosine_commute: "map2 row_cosine p z = map2 row_cosine z p"
  by (induction p z rule: list_induct2') (simp_all add: row_cosine_commute)

lemma negative_cosine_similarity_commute:
  "negative_cosine_similarity p z = negative_cosine_similarity z p"
  by (simp only: negative_cosine_similarity_eq map2_row_cosine_commute)


lemma square_sum_normalized_row: "square_sum (normalized_row row) \<le> 1"
proof -
  let ?d = "sqrt (max (square_sum row) (1 / 10 ^ 12))"
  have d2: "?d\<^sup>2 = max (square_sum row) (1 / 10 ^ 12)"
    by (simp add: max_def)
  have "square_sum (map (\<lambda>v. v / c) xs) = square_sum xs / c\<^sup>2" for c :: real and xs
    by (induction xs) (simp_all add: square_sum_def power_divide add_divide_distrib)
  then have "square_sum (normalized_row row) = square_sum row / ?d\<^sup>2"
    by (simp only: normalized_row_def)
  also have "\<dots> \<le> 1"
    unfolding d2 by (simp add: max_def) 
  finally show ?thesis .
qed

lemma dot_le_square_sums:
  "\<bar>sum_list (map2 (\<lambda>a b. a * b) xs ys)\<bar> \<le> (square_sum xs + square_sum ys) / 2"
proof (induction xs ys rule: list_induct2')
  case 1
  show ?case by (simp add: square_sum_def)
next
  case (2 x xs)
  have "0 \<le> square_sum (x # xs)" by (rule square_sum_nonneg)
  moreover have "square_sum [] = 0" by (simp add: square_sum_def)
  ultimately show ?case by simp
next
  case (3 y ys)
  have "0 \<le> square_sum (y # ys)" by (rule square_sum_nonneg)
  moreover have "square_sum [] = 0" by (simp add: square_sum_def)
  ultimately show ?case by simp
next
  case (4 x xs y ys)
  have "0 \<le> (\<bar>x\<bar> - \<bar>y\<bar>)\<^sup>2" by simp
  then have "\<bar>x * y\<bar> \<le> (x\<^sup>2 + y\<^sup>2) / 2"
    by (simp add: power2_diff abs_mult)
  moreover have "\<bar>x * y + sum_list (map2 (\<lambda>a b. a * b) xs ys)\<bar>
                  \<le> \<bar>x * y\<bar> + \<bar>sum_list (map2 (\<lambda>a b. a * b) xs ys)\<bar>"
    by (rule abs_triangle_ineq)
  ultimately show ?case using 4 by (simp add: square_sum_def)
qed

lemma row_cosine_bound: "\<bar>row_cosine r s\<bar> \<le> 1"
proof -
  have "\<bar>row_cosine r s\<bar> \<le> (square_sum (normalized_row r) + square_sum (normalized_row s)) / 2"
    unfolding row_cosine_def by (rule dot_le_square_sums)
  also have "\<dots> \<le> 1"
    using square_sum_normalized_row[of r] square_sum_normalized_row[of s] by simp
  finally show ?thesis .
qed

lemma sum_list_abs_bound:
  assumes "\<forall>c\<in>set cs. \<bar>c\<bar> \<le> (1::real)"
  shows "\<bar>sum_list cs\<bar> \<le> real (length cs)"
  using assms
proof (induction cs)
  case Nil
  show ?case by simp
next
  case (Cons c cs)
  then have "\<bar>c\<bar> \<le> 1" and "\<bar>sum_list cs\<bar> \<le> real (length cs)" by simp_all
  then show ?case by simp
qed

lemma mean_bound:
  assumes "cs \<noteq> []" and "\<forall>c\<in>set cs. \<bar>c\<bar> \<le> (1::real)"
  shows "\<exists>v. mean cs = Some v \<and> \<bar>v\<bar> \<le> 1"
proof -
  from assms(1) have n: "0 < real (length cs)" by simp
  have "\<bar>sum_list cs / real (length cs)\<bar> = \<bar>sum_list cs\<bar> / real (length cs)"
    by simp
  also have "\<dots> \<le> 1"
    using sum_list_abs_bound[OF assms(2)] n by (simp add: divide_le_eq)
  finally show ?thesis using n by (simp add: mean_def fdiv_def)
qed

lemma negative_cosine_similarity_bound:
  assumes "p \<noteq> []" and "length p = length z"
  shows "\<exists>v. negative_cosine_similarity p z = Some v \<and> - 1 \<le> v \<and> v \<le> 1"
proof -
  have ne: "map2 row_cosine p z \<noteq> []" using assms by (cases p; cases z) simp_all
  have "\<forall>c\<in>set (map2 row_cosine p z). \<bar>c\<bar> \<le> 1"
    by (auto simp: row_cosine_bound)
  from mean_bound[OF ne this] obtain v where
    v: "mean (map2 row_cosine p z) = Some v" "\<bar>v\<bar> \<le> 1" by blast
  then have "negative_cosine_similarity p z = Some (- v)" "- 1 \<le> - v" "- v \<le> 1"
    by (simp_all add: negative_cosine_similarity_eq)
  then show ?thesis by blast
qed

lemma square_sum_scale: "square_sum (map (\<lambda>v. c * v) row) = c\<^sup>2 * square_sum row"
  by (induction row) (simp_all add: square_sum_def power_mult_distrib algebra_simps)

lemma square_sum_zero_iff: "square_sum row = 0 \<longleftrightarrow> (\<forall>v\<in>set row. v = 0)"
proof (induction row)
  case Nil
  show ?case by (simp add: square_sum_def)
next
  case (Cons a row)
  have "0 \<le> square_sum row" by (rule square_sum_nonneg)
  then have "a\<^sup>2 + square_sum row = 0 \<longleftrightarrow> a = 0 \<and> square_sum row = 0"
    by (simp add: add_nonneg_eq_0_iff)
  with Cons show ?case by (simp add: square_sum_def)
qed

lemma normalized_row_scale:
  assumes "0 < c"
    and "(1 / 10 ^ 12 \<le> square_sum row \<and> 1 / 10 ^ 12 \<le> c\<^sup>2 * square_sum row) \<or>
         (\<forall>v\<in>set row. v = 0)"
  shows "normalized_row (map (\<lambda>v. c * v) row) = normalized_row row"
  using assms(2)
proof
  assume big: "1 / 10 ^ 12 \<le> square_sum row \<and> 1 / 10 ^ 12 \<le> c\<^sup>2 * square_sum row"
  then have m1: "max (square_sum row) (1 / 10 ^ 12) = square_sum row"
    and m2: "max (c\<^sup>2 * square_sum row) (1 / 10 ^ 12) = c\<^sup>2 * square_sum row"
    by (simp_all add: max_def)
  have "sqrt (c\<^sup>2 * square_sum row) = c * sqrt (square_sum row)"
    using assms(1) by (simp add: real_sqrt_mult)
  then show ?thesis
    unfolding normalized_row_def square_sum_scale m1 m2 using assms(1) by simp
next
  assume z: "\<forall>v\<in>set row. v = 0"
  then have "map (\<lambda>v. c * v) row = row" by (simp add: map_idI)
  then show ?thesis by simp
qed

lemma negative_cosine_similarity_scale_left:
  assumes "i < length p" and "0 < c"
    and "(1 / 10 ^ 12 \<le> square_sum (p ! i) \<and> 1 / 10 ^ 12 \<le> c\<^sup>2 * square_sum (p ! i)) \<or>
         (\<forall>v\<in>set (p ! i). v = 0)"
  shows "negative_cosine_similarity (p[i := map (\<lambda>v. c * v) (p ! i)]) z =
         negative_cosine_similarity p z"
proof -
  have "map normalized_row (p[i := map (\<lambda>v. c * v) (p ! i)]) = map normalized_row p"
    using assms(1) normalized_row_scale[OF assms(2,3)]
    by (simp add: map_update list_update_same_conv)
  moreover have "map2 row_cosine q z =
      map2 (\<lambda>r s. sum_list (map2 (\<lambda>a b. a * b) r (normalized_row s))) (map normalized_row q) z" for q
    by (simp add: zip_map1 row_cosine_def split_def)
  ultimately have "map2 row_cosine (p[i := map (\<lambda>v. c * v) (p ! i)]) z = map2 row_cosine p z"
    by simp
  then show ?thesis by (simp only: negative_cosine_similarity_eq)
qed

lemma negative_cosine_similarity_scale_right:
  assumes "i < length z" and "0 < c"
    and "(1 / 10 ^ 12 \<le> square_sum (z ! i) \<and> 1 / 10 ^ 12 \<le> c\<^sup>2 * square_sum (z ! i)) \<or>
         (\<forall>v\<in>set (z ! i). v = 0)"
  shows "negative_cosine_similarity p (z[i := map (\<lambda>v. c * v) (z ! i)]) =
         negative_cosine_similarity p z"
  using negative_cosine_similarity_scale_left[OF assms, of p]
  by (simp only: negative_cosine_similarity_commute[of p])

text \<open>
  The lemmas above are about the loss in exact real arithmetic: there it lies in
  \<open>[-1, 1]\<close> and does not change when a row whose squared norm stays at or above
  \<open>epsilon\<close> is scaled. The code computes with floats, which the rest of this subsection
  is about.
\<close>

subsection \<open>Rounding\<close>



























lemma pos_ge_weaken: "pos_ge L v \<Longrightarrow> L' \<le> L \<Longrightarrow> pos_ge L' v"
  by (auto simp: pos_ge_def)




























































lemma fmul_commute: "fmul dt a b = fmul dt b a"
  by (cases a; cases b) (simp_all add: mult.commute)

lemma row_dot_float_commute:
  "fsum dt (map2 (\<lambda>a b. fmul dt a b) r s) = fsum dt (map2 (\<lambda>a b. fmul dt a b) s r)"
proof -
  have "map2 (\<lambda>a b. fmul dt a b) r s = map2 (\<lambda>a b. fmul dt a b) s r"
    by (induction r s rule: list_induct2') (simp_all add: fmul_commute)
  then show ?thesis by simp
qed

lemma negative_cosine_similarity_float_symmetric:
  "negative_cosine_similarity_float dt p z = negative_cosine_similarity_float dt z p"
proof -
  have "map2 (\<lambda>r s. fsum dt (map2 (\<lambda>a b. fmul dt a b) r s)) P Z =
        map2 (\<lambda>r s. fsum dt (map2 (\<lambda>a b. fmul dt a b) r s)) Z P" for P Z
    by (induction P Z rule: list_induct2') (simp_all add: row_dot_float_commute)
  then show ?thesis by (simp add: negative_cosine_similarity_float_def Let_def)
qed






subsection \<open>Scaling a row by a power of two\<close>






















text \<open>
  Claim C10. The loss is symmetric in its two arguments: both are normalized row by row
  in the same way and the elementwise product commutes.
\<close>

theorem negative_cosine_similarity_symmetric:
  "negative_cosine_similarity p z = negative_cosine_similarity z p"
  by (simp only: negative_cosine_similarity_eq map2_row_cosine_commute)

subsection \<open>The contrastive loss\<close>

text \<open>
  Claim C2. \<open>loss_fn\<close> makes three forward passes, over \<open>y\<close> and over its two augmented
  views, and all three are given the same variables, built from the incoming state.
  The state it returns is the one the pass over \<open>y\<close> returns. The states that the passes
  over the augmented views return are dropped: a module that differs only in them gives
  the same result.
\<close>

theorem loss_fn_passes_and_state:
  fixes module' :: "('c, 's) Layer"
  shows
  "snd (loss_fn module' params state y x aux const sparams rnd) =
     snd (layer_apply module' (variables (dict_merge params sparams) aux const state) (Signal y)) \<and>
   fst (loss_fn module' params state y x aux const sparams rnd) =
     negative_cosine_similarity_jvp
       (map (map cabs) (sig_val (fst (layer_apply module'
          (variables (dict_merge params sparams) aux const state)
          (Signal (fst (apply_transform y rnd)))))))
       (map (map cabs) (sig_val (fst (layer_apply module'
          (variables (dict_merge params sparams) aux const state)
          (Signal (fst (apply_transform1 y (snd (apply_transform y rnd)))))))))  \<and>
   (\<forall>other :: ('c, 's) Layer.
      (\<forall>v s. fst (layer_apply other v s) = fst (layer_apply module' v s)) \<and>
      snd (layer_apply other (variables (dict_merge params sparams) aux const state) (Signal y)) =
      snd (layer_apply module' (variables (dict_merge params sparams) aux const state) (Signal y))
      \<longrightarrow> loss_fn other params state y x aux const sparams rnd =
          loss_fn module' params state y x aux const sparams rnd)"
  by (simp add: loss_fn_def Let_def split_def)

theorem loss_fn_passes_and_state_witness:
  "(\<forall>v s. fst (layer_apply probe_module' v s) = fst (layer_apply probe_module v s)) \<and>
   snd (layer_apply probe_module'
          (variables (dict_merge [[''w''] \<mapsto> Dual 1 1] Map.empty) Map.empty () Map.empty)
          (Signal [[- 1, 0]])) =
   snd (layer_apply probe_module
          (variables (dict_merge [[''w''] \<mapsto> Dual 1 1] Map.empty) Map.empty () Map.empty)
          (Signal [[- 1, 0]])) \<and>
   snd (layer_apply probe_module'
          (variables (dict_merge [[''w''] \<mapsto> Dual 1 1] Map.empty) Map.empty () Map.empty)
          (Signal [[3, 4]])) \<noteq>
   snd (layer_apply probe_module
          (variables (dict_merge [[''w''] \<mapsto> Dual 1 1] Map.empty) Map.empty () Map.empty)
          (Signal [[3, 4]])) \<and>
   loss_fn probe_module' [[''w''] \<mapsto> Dual 1 1] Map.empty [[- 1, 0]] [] Map.empty ()
     Map.empty probe_rnd =
   loss_fn probe_module [[''w''] \<mapsto> Dual 1 1] Map.empty [[- 1, 0]] [] Map.empty ()
     Map.empty probe_rnd"
proof -
  have h1: "\<forall>v s. fst (layer_apply probe_module' v s) = fst (layer_apply probe_module v s)"
    by (simp add: probe_module'_def)
  have h2: "snd (layer_apply probe_module'
          (variables (dict_merge [[''w''] \<mapsto> Dual 1 1] Map.empty) Map.empty () Map.empty)
          (Signal [[- 1, 0]])) =
   snd (layer_apply probe_module
          (variables (dict_merge [[''w''] \<mapsto> Dual 1 1] Map.empty) Map.empty () Map.empty)
          (Signal [[- 1, 0]]))"
    by (simp add: probe_module'_def probe_module_def)
  have h3: "snd (layer_apply probe_module'
          (variables (dict_merge [[''w''] \<mapsto> Dual 1 1] Map.empty) Map.empty () Map.empty)
          (Signal [[3, 4]])) \<noteq>
   snd (layer_apply probe_module
          (variables (dict_merge [[''w''] \<mapsto> Dual 1 1] Map.empty) Map.empty () Map.empty)
          (Signal [[3, 4]]))"
    by (simp add: probe_module'_def probe_module_def Signal_def)
  from loss_fn_passes_and_state[of probe_module "[[''w''] \<mapsto> Dual 1 1]" Map.empty
      "[[- 1, 0]]" "[]" Map.empty "()" Map.empty probe_rnd]
  have "loss_fn probe_module' [[''w''] \<mapsto> Dual 1 1] Map.empty [[- 1, 0]] [] Map.empty ()
          Map.empty probe_rnd =
        loss_fn probe_module [[''w''] \<mapsto> Dual 1 1] Map.empty [[- 1, 0]] [] Map.empty ()
          Map.empty probe_rnd"
    using h1 h2 by blast
  with h1 h2 h3 show ?thesis by blast
qed

subsection \<open>The training loop\<close>

lemma train_loop_length:
  "length (train_loop module' optimizer const sparams rnd n_iter i batch_gen vars) =
     min (nat (n_iter - int i)) (length batch_gen)"
proof (induction module' optimizer const sparams rnd n_iter i batch_gen vars
         rule: train_loop.induct)
  case (1 module' optimizer const sparams rnd n_iter i vars)
  show ?case by simp
next
  case (2 module' optimizer const sparams rnd n_iter i y x batch_gen opt_state params
          module_state aux)
  show ?case
  proof (cases "n_iter \<le> int i")
    case True
    then show ?thesis by simp
  next
    case False
    obtain loss os ms ps where
      u: "update_step module' optimizer opt_state params module_state y x
            (dict_replace aux ''truth'' x) const sparams (rnd i) = (loss, os, ms, ps)"
      by (metis prod_cases4)
    have "length (train_loop module' optimizer const sparams rnd n_iter (Suc i) batch_gen
                    (os, ps, ms, dict_replace aux ''truth'' x)) =
          min (nat (n_iter - int (Suc i))) (length batch_gen)"
      using "2.IH"[OF False refl u[symmetric] refl refl refl] .
    moreover have "Suc (min (nat (n_iter - int (Suc i))) (length batch_gen)) =
          min (nat (n_iter - int i)) (Suc (length batch_gen))"
      using False by (simp add: min_def) linarith
    ultimately show ?thesis using False u by simp
  qed
qed

lemma frame_gen_length:
  "frame_gen xs flen fstep = Inr frames \<Longrightarrow> frame_shape (length xs) flen fstep = Inr (length frames)"
  by (auto simp: frame_gen_def split: sum.splits)

lemma get_train_batch_length:
  assumes "get_train_batch ds B Ov sps = Inr (n, bs)"
  shows "length bs \<le> n"
  using assms
  by (auto simp: get_train_batch_def Let_def split: sum.splits dest!: frame_gen_length)

lemma frame_shape_total: "fstep \<noteq> 0 \<Longrightarrow> \<exists>n. frame_shape l flen fstep = Inr n"
  by (simp add: frame_shape_def)

lemma frame_gen_total: "fstep \<noteq> 0 \<Longrightarrow> \<exists>fs. frame_gen xs flen fstep = Inr fs"
  by (simp add: frame_gen_def frame_shape_def)

lemma get_train_batch_total:
  assumes "B \<noteq> 0" and "sps \<noteq> 0"
  shows "\<exists>n bs. get_train_batch ds B Ov sps = Inr (n, bs)"
proof -
  from assms have "B * sps \<noteq> 0" by simp
  from frame_gen_total[OF this] obtain fy where
    "frame_gen (ds_y ds) ((B + Ov) * sps) (B * sps) = Inr fy" by blast
  moreover from frame_gen_total[OF assms(1)] obtain fx where
    "frame_gen (ds_x ds) (B + Ov) B = Inr fx" by blast
  moreover from frame_shape_total[OF assms(1)] obtain n where
    "frame_shape (length (ds_x ds)) (B + Ov) B = Inr n" by blast
  ultimately show ?thesis by (simp add: get_train_batch_def)
qed

lemma get_train_batch_short:
  assumes "int (length (ds_x ds)) < Ov + B" and "get_train_batch ds B Ov sps = Inr (n, bs)"
  shows "bs = []"
proof -
  from assms(1) have "frame_gen (ds_x ds) (B + Ov) B = Inr []"
    by (simp add: frame_gen_def frame_shape_def add.commute)
  with assms(2) show ?thesis
    by (auto simp: get_train_batch_def Let_def split: sum.splits)
qed

lemma train_length:
  assumes "get_train_batch data batch_size (overlaps model) 2 = Inr (n_batch, batch_gen)"
  shows "\<exists>out. train model data batch_size n_iter optimizer rnd = Inr out \<and>
           length out =
             (case n_iter of None \<Rightarrow> length batch_gen
              | Some n \<Rightarrow> min (nat n) (length batch_gen))"
proof -
  have le: "length batch_gen \<le> n_batch" using assms by (rule get_train_batch_length)
  obtain params module_state aux const sparams where
    iv: "initvar model = (params, module_state, aux, const, sparams)"
    by (metis prod_cases5)
  let ?n = "case n_iter of None \<Rightarrow> int n_batch | Some n \<Rightarrow> min n (int n_batch)"
  have t: "train model data batch_size n_iter optimizer rnd =
        Inr (train_loop (model_module model) optimizer const sparams rnd ?n 0 batch_gen
              (opt_init optimizer params, params, module_state, aux))"
    by (simp add: train_def iv assms)
  have "min (nat (?n - int 0)) (length batch_gen) =
        (case n_iter of None \<Rightarrow> length batch_gen | Some n \<Rightarrow> min (nat n) (length batch_gen))"
    using le by (cases n_iter) (simp_all add: min_def, linarith)
  then have "length (train_loop (model_module model) optimizer const sparams rnd ?n 0 batch_gen
              (opt_init optimizer params, params, module_state, aux)) =
        (case n_iter of None \<Rightarrow> length batch_gen | Some n \<Rightarrow> min (nat n) (length batch_gen))"
    by (simp only: train_loop_length)
  with t show ?thesis by blast
qed

text \<open>
  Claim C4. For a positive batch size and an iteration count that is \<open>None\<close> or not
  negative, \<open>train\<close> raises no error and yields \<open>min n_iter available\<close> tuples, where
  \<open>available\<close> is the number of batches of \<open>get_train_batch\<close> (all of them for \<open>None\<close>).
  A signal shorter than one window (\<open>L < O + B\<close>) yields no tuple.
\<close>

theorem train_emits_min_batches:
  assumes "0 < batch_size" and "n_iter = None \<or> (\<exists>n. n_iter = Some n \<and> 0 \<le> n)"
  shows "\<exists>n_batch batch_gen out.
           get_train_batch data batch_size (overlaps model) 2 = Inr (n_batch, batch_gen) \<and>
           train model data batch_size n_iter optimizer rnd = Inr out \<and>
           int (length out) =
             (case n_iter of None \<Rightarrow> int (length batch_gen)
              | Some n \<Rightarrow> min n (int (length batch_gen))) \<and>
           (int (length (ds_x data)) < overlaps model + batch_size \<longrightarrow> out = [])"
proof -
  from assms(1) have "batch_size \<noteq> 0" and "(2::int) \<noteq> 0" by simp_all
  from get_train_batch_total[OF this] obtain n_batch batch_gen where
    g: "get_train_batch data batch_size (overlaps model) 2 = Inr (n_batch, batch_gen)"
    by blast
  from train_length[OF g] obtain out where
    t: "train model data batch_size n_iter optimizer rnd = Inr out" and
    l: "length out =
          (case n_iter of None \<Rightarrow> length batch_gen | Some n \<Rightarrow> min (nat n) (length batch_gen))"
    by blast
  have c: "int (length out) =
             (case n_iter of None \<Rightarrow> int (length batch_gen)
              | Some n \<Rightarrow> min n (int (length batch_gen)))"
    using assms(2) l by (auto simp: min_def)
  have s: "out = []" if "int (length (ds_x data)) < overlaps model + batch_size"
  proof -
    from get_train_batch_short[OF that g] have "batch_gen = []" .
    with l show ?thesis by (cases n_iter) simp_all
  qed
  from g t c s show ?thesis by blast
qed

theorem train_emits_min_batches_witness:
  "(0::int) < 1 \<and>
   (\<exists>n_batch batch_gen out.
      get_train_batch probe_data 1
        (overlaps \<lparr>model_module = probe_module,
                   initvar = ([[''w''] \<mapsto> 1], Map.empty, Map.empty, (), [[''b''] \<mapsto> 0]),
                   overlaps = 4, model_name = ''Model''\<rparr>) 2 = Inr (n_batch, batch_gen) \<and>
      train \<lparr>model_module = probe_module,
             initvar = ([[''w''] \<mapsto> 1], Map.empty, Map.empty, (), [[''b''] \<mapsto> 0]),
             overlaps = 4, model_name = ''Model''\<rparr> probe_data 1 (Some 3) probe_optimizer
        (\<lambda>i. probe_rnd) = Inr out \<and>
      int (length out) = min 3 (int (length batch_gen))) \<and>
   train \<lparr>model_module = probe_module,
          initvar = ([[''w''] \<mapsto> 1], Map.empty, Map.empty, (), [[''b''] \<mapsto> 0]),
          overlaps = 4, model_name = ''Model''\<rparr> probe_data 2 None probe_optimizer
     (\<lambda>i. probe_rnd) = Inr []"
proof -
  let ?m = "\<lparr>model_module = probe_module,
             initvar = ([[''w''] \<mapsto> 1], Map.empty, Map.empty, (), [[''b''] \<mapsto> 0]),
             overlaps = 4, model_name = ''Model''\<rparr>"
  have h1: "(0::int) < 1" and h1': "(0::int) < 2" by simp_all
  have h2: "Some 3 = None \<or> (\<exists>n. Some 3 = Some n \<and> (0::int) \<le> n)" by simp
  have h3: "None = None \<or> (\<exists>n. None = Some n \<and> (0::int) \<le> n)" by simp
  have short: "int (length (ds_x probe_data)) < overlaps ?m + 2"
    by (simp add: probe_data_def)
  have a: "\<exists>n_batch batch_gen out.
      get_train_batch probe_data 1 (overlaps ?m) 2 = Inr (n_batch, batch_gen) \<and>
      train ?m probe_data 1 (Some 3) probe_optimizer (\<lambda>i. probe_rnd) = Inr out \<and>
      int (length out) = min 3 (int (length batch_gen))"
    using train_emits_min_batches[OF h1 h2, of probe_data ?m probe_optimizer "\<lambda>i. probe_rnd"]
    by auto
  have b: "train ?m probe_data 2 None probe_optimizer (\<lambda>i. probe_rnd) = Inr []"
    using train_emits_min_batches[OF h1' h3, of probe_data ?m probe_optimizer "\<lambda>i. probe_rnd"]
      short by auto
  from h1 a b show ?thesis by blast
qed

subsection \<open>Static and trainable parameters\<close>

lemma dom_apply_updates: "dom (apply_updates params updates) = dom params"
  by (auto simp: apply_updates_def dom_def)

lemma update_step_dom:
  assumes "update_step module' optimizer opt_state params module_state y x aux const sparams rnd =
             (loss, new_opt_state, new_module_state, new_params)"
  shows "dom new_params = dom params"
proof -
  from assms have "new_params = apply_updates params
      (fst (opt_update optimizer
         (snd (value_and_grad
            (\<lambda>params. loss_fn module' params module_state y x aux const (no_tangent sparams) rnd)
            params)) opt_state params))"
    by (simp add: update_step_def Let_def split_def)
  then show ?thesis by (simp only: dom_apply_updates)
qed

lemma train_loop_dom:
  assumes "(loss, ps, ms) \<in> set (train_loop module' optimizer const sparams rnd n_iter i batch_gen
                                   (opt_state, params, module_state, aux))"
  shows "dom ps = dom params"
  using assms
proof (induction batch_gen arbitrary: i opt_state params module_state aux)
  case Nil
  then show ?case by simp
next
  case (Cons b batch_gen)
  obtain y x where b: "b = (y, x)" by (cases b)
  obtain l1 os1 ms1 ps1 where
    u: "update_step module' optimizer opt_state params module_state y x
          (dict_replace aux ''truth'' x) const sparams (rnd i) = (l1, os1, ms1, ps1)"
    by (metis prod_cases4)
  from update_step_dom[OF u] have d1: "dom ps1 = dom params" .
  from Cons.prems have ni: "\<not> n_iter \<le> int i"
    unfolding b by (auto split: if_splits)
  from Cons.prems ni u have
    "(loss, ps, ms) = (l1, ps1, ms1) \<or>
     (loss, ps, ms) \<in> set (train_loop module' optimizer const sparams rnd n_iter (Suc i) batch_gen
                             (os1, ps1, ms1, dict_replace aux ''truth'' x))"
    unfolding b by simp
  then show ?case
  proof
    assume "(loss, ps, ms) = (l1, ps1, ms1)"
    with d1 show ?thesis by simp
  next
    assume "(loss, ps, ms) \<in> set (train_loop module' optimizer const sparams rnd n_iter (Suc i)
                                    batch_gen (os1, ps1, ms1, dict_replace aux ''truth'' x))"
    from Cons.IH[OF this] d1 show ?thesis by simp
  qed
qed

lemma train_dom:
  assumes "train model data batch_size n_iter optimizer rnd = Inr out"
    and "(loss, ps, ms) \<in> set out"
  shows "dom ps = dom (fst (initvar model))"
proof -
  obtain params module_state aux const sparams where
    iv: "initvar model = (params, module_state, aux, const, sparams)"
    by (metis prod_cases5)
  from assms(1) obtain n_batch batch_gen where
    g: "get_train_batch data batch_size (overlaps model) 2 = Inr (n_batch, batch_gen)"
    by (auto simp: train_def iv split: sum.splits)
  from assms(1) have "out = train_loop (model_module model) optimizer const sparams rnd
          (case n_iter of None \<Rightarrow> int n_batch | Some n \<Rightarrow> min n (int n_batch)) 0 batch_gen
          (opt_init optimizer params, params, module_state, aux)"
    by (simp add: train_def iv g)
  with assms(2) have "(loss, ps, ms) \<in> set (train_loop (model_module model) optimizer const
          sparams rnd (case n_iter of None \<Rightarrow> int n_batch | Some n \<Rightarrow> min n (int n_batch)) 0
          batch_gen (opt_init optimizer params, params, module_state, aux))"
    by simp
  then have "dom ps = dom params" by (rule train_loop_dom)
  then show ?thesis by (simp add: iv)
qed

lemma model_init_initvar:
  assumes "model_init sem data base_conf sparams_flatkeys n_symbols sps name = Inr model"
  shows "\<exists>base. make_base_module (conf_steps base_conf) (conf_dtaps base_conf)
            (conf_ntaps base_conf) (conf_rtaps base_conf) (conf_init_fn base_conf) (ds_w0 data)
            (conf_mode base_conf) = Inr base \<and>
          model_module model = sem base \<and>
          model_name model = name \<and>
          overlaps model =
            t_start (sig_t (fst (layer_init (sem base) 0
                       (Signal (py_slice (ds_y data) 0 (n_symbols * sps)))))) -
            t_stop (sig_t (fst (layer_init (sem base) 0
                       (Signal (py_slice (ds_y data) 0 (n_symbols * sps)))))) \<and>
          initvar model =
            (let v0 = snd (layer_init (sem base) 0
                            (Signal (py_slice (ds_y data) 0 (n_symbols * sps))))
             in (snd (dict_split (iv_params v0) sparams_flatkeys), iv_af_state v0,
                 iv_aux_inputs v0, iv_const v0, fst (dict_split (iv_params v0) sparams_flatkeys)))"
  using assms
  by (auto simp: model_init_def Let_def split_def split: sum.splits)

lemma probe_model_init:
  "\<exists>model. model_init (\<lambda>b. probe_module) probe_data probe_conf [[''b'']] 4000 2 ''Model'' = Inr model"
  by (simp add: model_init_def probe_conf_def make_base_module_def assert_taps_def Let_def
        split_def)

lemma probe_layer_init:
  "layer_init probe_module rng s =
     (\<lparr>sig_val = sig_val s, sig_t = \<lparr>t_start = 2, t_stop = - 2, t_sps = 2\<rparr>\<rparr>,
      \<lparr>iv_params = [[''w''] \<mapsto> 1, [''b''] \<mapsto> 0], iv_af_state = Map.empty,
       iv_aux_inputs = Map.empty, iv_const = ()\<rparr>)"
  by (simp add: probe_module_def)

text \<open>
  Claim C6. Let the model come from \<open>model_init\<close> with the static key paths
  \<open>sparams_flatkeys\<close>, and let \<open>v0\<close> be the initial variables of the module. After any
  number \<open>N\<close> of iterations of \<open>train\<close>, a static key has in the static parameters of the
  model the value it has in \<open>v0\<close>; the parameters that the optimizer has updated hold no
  static key (their keys are the keys of \<open>v0\<close> that are not static); and the merged view
  of both, which is what a forward pass reads, has at the static key its value in \<open>v0\<close>.
\<close>

theorem static_params_unchanged_by_training:
  assumes "model_init sem data base_conf sparams_flatkeys n_symbols sps name = Inr model"
    and "train model data' batch_size n_iter optimizer rnd = Inr out"
    and "N < length out"
    and "key \<in> set sparams_flatkeys"
  defines "v0 \<equiv> snd (layer_init (model_module model) 0
                        (Signal (py_slice (ds_y data) 0 (n_symbols * sps))))"
  defines "sparams \<equiv> snd (snd (snd (snd (initvar model))))"
  defines "params \<equiv> fst (snd (out ! N))"
  shows "sparams key = iv_params v0 key \<and>
         params key = None \<and>
         dict_merge params sparams key = iv_params v0 key \<and>
         dom params = dom (iv_params v0) - set sparams_flatkeys"
proof -
  from model_init_initvar[OF assms(1)] obtain base where
    m: "model_module model = sem base" and
    iv: "initvar model =
            (let v0 = snd (layer_init (sem base) 0
                            (Signal (py_slice (ds_y data) 0 (n_symbols * sps))))
             in (snd (dict_split (iv_params v0) sparams_flatkeys), iv_af_state v0,
                 iv_aux_inputs v0, iv_const v0, fst (dict_split (iv_params v0) sparams_flatkeys)))"
    by blast
  have sp: "sparams = fst (dict_split (iv_params v0) sparams_flatkeys)"
    and p0: "fst (initvar model) = snd (dict_split (iv_params v0) sparams_flatkeys)"
    by (simp_all add: sparams_def v0_def m iv Let_def)
  have s: "sparams key = iv_params v0 key"
    using assms(4) by (simp add: sp dict_split_def)
  obtain loss ms where o: "out ! N = (loss, params, ms)"
    by (cases "out ! N") (simp add: params_def)
  with assms(3) have "(loss, params, ms) \<in> set out" by (metis nth_mem)
  from train_dom[OF assms(2) this] have
    d: "dom params = dom (snd (dict_split (iv_params v0) sparams_flatkeys))"
    by (simp only: p0)
  have d0: "dom (snd (dict_split (iv_params v0) sparams_flatkeys)) =
            dom (iv_params v0) - set sparams_flatkeys"
    by (auto simp: dict_split_def dom_def)
  from d d0 have dp: "dom params = dom (iv_params v0) - set sparams_flatkeys" by simp
  with assms(4) have n: "params key = None" by blast
  have "dict_merge params sparams key = iv_params v0 key"
    using n s by (simp add: dict_merge_def map_add_def split: option.splits)
  with s n dp show ?thesis by blast
qed

theorem static_params_unchanged_by_training_witness:
  "\<exists>model out.
     model_init (\<lambda>b. probe_module) probe_data probe_conf [[''b'']] 4000 2 ''Model'' = Inr model \<and>
     train model probe_data 1 None probe_optimizer (\<lambda>i. probe_rnd) = Inr out \<and>
     0 < length out \<and>
     snd (snd (snd (snd (initvar model)))) [''b''] = Some 0 \<and>
     fst (snd (out ! 0)) [''b''] = None \<and>
     dict_merge (fst (snd (out ! 0))) (snd (snd (snd (snd (initvar model))))) [''b''] = Some 0"
proof -
  from probe_model_init obtain model where
    m: "model_init (\<lambda>b. probe_module) probe_data probe_conf [[''b'']] 4000 2 ''Model'' = Inr model"
    by blast
  from model_init_initvar[OF m] have mm: "model_module model = probe_module"
    and ov: "overlaps model = 4"
    by (auto simp: probe_layer_init)
  have g: "get_train_batch probe_data (int 1) (int 4) (int 2) =
        Inr ((length (ds_x probe_data) - 4) div 1,
             map (\<lambda>i. (take ((1 + 4) * 2) (drop (i * (1 * 2)) (ds_y probe_data)),
                       take (1 + 4) (drop (i * 1) (ds_x probe_data))))
               [0..<(length (ds_x probe_data) - 4) div 1])"
    by (rule get_train_batch_nat) (simp_all add: probe_data_def)
  have l: "length (ds_x probe_data) = 5" by (simp add: probe_data_def)
  from g have "\<exists>bs. get_train_batch probe_data 1 (overlaps model) 2 = Inr (1, bs) \<and> length bs = 1"
    unfolding l ov by simp
  then obtain bs where
    g': "get_train_batch probe_data 1 (overlaps model) 2 = Inr (1, bs)" and lb: "length bs = 1"
    by blast
  from train_length[OF g', of None probe_optimizer "\<lambda>i. probe_rnd"] lb obtain out where
    t: "train model probe_data 1 None probe_optimizer (\<lambda>i. probe_rnd) = Inr out"
    and lo: "length out = 1"
    by auto
  have n: "0 < length out" using lo by simp
  have k: "[''b''] \<in> set [[''b'']]" by simp
  from static_params_unchanged_by_training[OF m t n k]
  have "snd (snd (snd (snd (initvar model)))) [''b''] = Some 0"
    and "fst (snd (out ! 0)) [''b''] = None"
    and "dict_merge (fst (snd (out ! 0))) (snd (snd (snd (snd (initvar model))))) [''b''] = Some 0"
    by (simp_all add: mm probe_layer_init)
  with m t n show ?thesis by blast
qed

subsection \<open>Model initialisation\<close>

text \<open>
  Claim C8. For a reference pass whose validity window has a start that is not negative
  and a stop offset that is not positive, the overlap that \<open>model_init\<close> stores is the
  absolute value of start minus stop offset. \<open>train\<close> windows the data with that overlap:
  with no iteration count it yields one tuple per window of \<open>get_train_batch\<close> for it.
\<close>

theorem model_init_overlaps:
  assumes "model_init sem data base_conf sparams_flatkeys n_symbols sps name = Inr model"
  defines "z0 \<equiv> fst (layer_init (model_module model) 0
                        (Signal (py_slice (ds_y data) 0 (n_symbols * sps))))"
  assumes "0 \<le> t_start (sig_t z0)" and "t_stop (sig_t z0) \<le> 0"
  shows "overlaps model = \<bar>t_start (sig_t z0) - t_stop (sig_t z0)\<bar> \<and>
         (\<forall>n_batch batch_gen.
            get_train_batch data' batch_size \<bar>t_start (sig_t z0) - t_stop (sig_t z0)\<bar> 2 =
              Inr (n_batch, batch_gen) \<longrightarrow>
            (\<exists>out. train model data' batch_size None optimizer rnd = Inr out \<and>
                   length out = length batch_gen))"
proof -
  from model_init_initvar[OF assms(1)] have
    "overlaps model = t_start (sig_t z0) - t_stop (sig_t z0)"
    by (auto simp: z0_def)
  with assms(3,4) have o: "overlaps model = \<bar>t_start (sig_t z0) - t_stop (sig_t z0)\<bar>"
    by simp
  have "\<exists>out. train model data' batch_size None optimizer rnd = Inr out \<and>
              length out = length batch_gen"
    if "get_train_batch data' batch_size \<bar>t_start (sig_t z0) - t_stop (sig_t z0)\<bar> 2 =
          Inr (n_batch, batch_gen)" for n_batch batch_gen
    using train_length[of data' batch_size model n_batch batch_gen None optimizer rnd] that
    by (simp add: o)
  with o show ?thesis by blast
qed

theorem model_init_overlaps_witness:
  "\<exists>model out.
     model_init (\<lambda>b. probe_module) probe_data probe_conf [[''b'']] 4000 2 ''Model'' = Inr model \<and>
     overlaps model = 4 \<and>
     train model probe_data 1 None probe_optimizer (\<lambda>i. probe_rnd) = Inr out \<and>
     length out = 1"
proof -
  from probe_model_init obtain model where
    m: "model_init (\<lambda>b. probe_module) probe_data probe_conf [[''b'']] 4000 2 ''Model'' = Inr model"
    by blast
  from model_init_initvar[OF m] have mm: "model_module model = probe_module"
    by auto
  let ?z0 = "fst (layer_init (model_module model) 0
                    (Signal (py_slice (ds_y probe_data) 0 (4000 * 2))))"
  have h1: "0 \<le> t_start (sig_t ?z0)" and h2: "t_stop (sig_t ?z0) \<le> 0"
    and v: "\<bar>t_start (sig_t ?z0) - t_stop (sig_t ?z0)\<bar> = 4"
    by (simp_all add: mm probe_layer_init)
  note t = model_init_overlaps[OF m h1 h2, of probe_data 1 probe_optimizer "\<lambda>i. probe_rnd"]
  have g: "get_train_batch probe_data (int 1) (int 4) (int 2) =
        Inr ((length (ds_x probe_data) - 4) div 1,
             map (\<lambda>i. (take ((1 + 4) * 2) (drop (i * (1 * 2)) (ds_y probe_data)),
                       take (1 + 4) (drop (i * 1) (ds_x probe_data))))
               [0..<(length (ds_x probe_data) - 4) div 1])"
    by (rule get_train_batch_nat) (simp_all add: probe_data_def)
  have l: "length (ds_x probe_data) = 5" by (simp add: probe_data_def)
  from g have "\<exists>bs. get_train_batch probe_data 1 4 2 = Inr (1, bs) \<and> length bs = 1"
    unfolding l by simp
  then obtain bs where
    g': "get_train_batch probe_data 1 4 2 = Inr (1, bs)" and lb: "length bs = 1"
    by blast
  from t have o: "overlaps model = 4" unfolding v by blast
  from t g' lb obtain out where
    "train model probe_data 1 None probe_optimizer (\<lambda>i. probe_rnd) = Inr out" "length out = 1"
    unfolding v by auto
  with m o show ?thesis by blast
qed

subsection \<open>Evaluation\<close>

lemma py_slice_window:
  assumes "0 \<le> a" and "b < 0"
  shows "py_slice xs a b = take (nat (int (length xs) + b) - nat a) (drop (nat a) xs)"
proof (cases "nat a \<le> length xs")
  case True
  with assms show ?thesis by (simp add: py_slice_def py_bound_def min_def Let_def)
next
  case False
  with assms show ?thesis by (simp add: py_slice_def py_bound_def min_def Let_def)
qed

text \<open>
  Claim C9. \<open>test\<close> applies the module once, to the whole input signal, with the given
  parameters or, for \<open>None\<close>, the initial parameters of the model, merged with the static
  ones. It slices the target with the bounds \<open>start\<close> and \<open>stop\<close> of the output's validity
  window (for a stop offset below zero these are the symbols from \<open>start\<close> up to \<open>stop\<close>
  from the end), passes the slice and the evaluation range, as the caller gave it, to the
  metric, and returns the metric and the whole output. The state that the pass returns is
  dropped: a module that differs only in it gives the same result.
\<close>

theorem test_single_full_pass:
  fixes model :: "('c, 's) Model" and params :: "(keypath \<rightharpoonup> real) option" and data :: Input
  assumes "initvar model = (params0, state, aux, const, sparams)"
  defines "V \<equiv> variables
                  (no_tangent (dict_merge (case params of None \<Rightarrow> params0 | Some p \<Rightarrow> p) sparams))
                  (dict_replace aux ''truth'' (ds_x data)) const state"
  defines "z \<equiv> fst (layer_apply (model_module model) V (Signal (ds_y data)))"
  shows "test model params data eval_range metric_fn =
           (metric_fn (sig_val z)
              (py_slice (ds_x data) (t_start (sig_t z)) (t_stop (sig_t z))) (sqrt 10) eval_range,
            z) \<and>
         (0 \<le> t_start (sig_t z) \<and> t_stop (sig_t z) < 0 \<longrightarrow>
            py_slice (ds_x data) (t_start (sig_t z)) (t_stop (sig_t z)) =
              take (nat (int (length (ds_x data)) + t_stop (sig_t z)) - nat (t_start (sig_t z)))
                (drop (nat (t_start (sig_t z))) (ds_x data))) \<and>
         (\<forall>other. initvar other = initvar model \<and>
                  fst (layer_apply (model_module other) V (Signal (ds_y data))) = z \<longrightarrow>
                  test other params data eval_range metric_fn =
                  test model params data eval_range metric_fn)"
proof -
  have t: "test m params data eval_range metric_fn =
           (metric_fn (sig_val (fst (layer_apply (model_module m) V (Signal (ds_y data)))))
              (py_slice (ds_x data)
                 (t_start (sig_t (fst (layer_apply (model_module m) V (Signal (ds_y data))))))
                 (t_stop (sig_t (fst (layer_apply (model_module m) V (Signal (ds_y data)))))))
              (sqrt 10) eval_range,
            fst (layer_apply (model_module m) V (Signal (ds_y data))))"
    if "initvar m = initvar model" for m
  proof -
    from that have im: "initvar m = (params0, state, aux, const, sparams)"
      by (simp only: assms(1))
    show ?thesis by (cases params) (simp_all add: test_def im V_def Let_def)
  qed
  have a: "test model params data eval_range metric_fn =
           (metric_fn (sig_val z)
              (py_slice (ds_x data) (t_start (sig_t z)) (t_stop (sig_t z))) (sqrt 10) eval_range,
            z)"
    using t[OF refl] by (simp only: z_def)
  have b: "py_slice (ds_x data) (t_start (sig_t z)) (t_stop (sig_t z)) =
              take (nat (int (length (ds_x data)) + t_stop (sig_t z)) - nat (t_start (sig_t z)))
                (drop (nat (t_start (sig_t z))) (ds_x data))"
    if "0 \<le> t_start (sig_t z) \<and> t_stop (sig_t z) < 0"
    using that by (simp add: py_slice_window)
  have c: "test other params data eval_range metric_fn =
           test model params data eval_range metric_fn"
    if "initvar other = initvar model \<and>
        fst (layer_apply (model_module other) V (Signal (ds_y data))) = z" for other
    using that t[of other] a by simp
  from a b c show ?thesis by blast
qed

theorem test_single_full_pass_witness:
  "fst (test \<lparr>model_module = probe_module,
              initvar = ([[''w''] \<mapsto> 1], Map.empty, Map.empty, (), [[''b''] \<mapsto> 0]),
              overlaps = 4, model_name = ''Model''\<rparr> None probe_data (0, - 1) probe_metric) = 1 \<and>
   test \<lparr>model_module = probe_module',
         initvar = ([[''w''] \<mapsto> 1], Map.empty, Map.empty, (), [[''b''] \<mapsto> 0]),
         overlaps = 4, model_name = ''Model''\<rparr> None probe_data (0, - 1) probe_metric =
   test \<lparr>model_module = probe_module,
         initvar = ([[''w''] \<mapsto> 1], Map.empty, Map.empty, (), [[''b''] \<mapsto> 0]),
         overlaps = 4, model_name = ''Model''\<rparr> None probe_data (0, - 1) probe_metric"
proof -
  let ?m = "\<lparr>model_module = probe_module,
             initvar = ([[''w''] \<mapsto> 1], Map.empty, Map.empty, (), [[''b''] \<mapsto> 0]),
             overlaps = 4, model_name = ''Model''\<rparr>"
  let ?m' = "\<lparr>model_module = probe_module',
             initvar = ([[''w''] \<mapsto> 1], Map.empty, Map.empty, (), [[''b''] \<mapsto> 0]),
             overlaps = 4, model_name = ''Model''\<rparr>"
  let ?V = "variables
              (no_tangent (dict_merge (case None of None \<Rightarrow> [[''w''] \<mapsto> 1] | Some p \<Rightarrow> p)
                 [[''b''] \<mapsto> 0]))
              (dict_replace Map.empty ''truth'' (ds_x probe_data)) () Map.empty"
  let ?z = "fst (layer_apply (model_module ?m) ?V (Signal (ds_y probe_data)))"
  have iv: "initvar ?m = ([[''w''] \<mapsto> 1], Map.empty, Map.empty, (), [[''b''] \<mapsto> 0])"
    by simp
  note t = test_single_full_pass[OF iv, of None probe_data "(0, - 1)" probe_metric]
  have w: "t_start (sig_t ?z) = 2" "t_stop (sig_t ?z) = - 2"
    by (simp_all add: probe_module_def)
  have h1: "0 \<le> t_start (sig_t ?z) \<and> t_stop (sig_t ?z) < 0"
    unfolding w by simp
  have h2: "initvar ?m' = initvar ?m \<and>
            fst (layer_apply (model_module ?m') ?V (Signal (ds_y probe_data))) = ?z"
    by (simp add: probe_module'_def)
  from t h1 have "py_slice (ds_x probe_data) (t_start (sig_t ?z)) (t_stop (sig_t ?z)) =
      take (nat (int (length (ds_x probe_data)) + t_stop (sig_t ?z)) - nat (t_start (sig_t ?z)))
        (drop (nat (t_start (sig_t ?z))) (ds_x probe_data))"
    by blast
  then have s: "py_slice (ds_x probe_data) (t_start (sig_t ?z)) (t_stop (sig_t ?z)) = [[3]]"
    unfolding w by (simp add: probe_data_def)
  from t have "fst (test ?m None probe_data (0, - 1) probe_metric) =
      probe_metric (sig_val ?z)
        (py_slice (ds_x probe_data) (t_start (sig_t ?z)) (t_stop (sig_t ?z))) (sqrt 10) (0, - 1)"
    by simp
  then have a: "fst (test ?m None probe_data (0, - 1) probe_metric) = 1"
    unfolding s by (simp add: probe_metric_def)
  from t h2 have b: "test ?m' None probe_data (0, - 1) probe_metric =
                     test ?m None probe_data (0, - 1) probe_metric"
    by blast
  from a b show ?thesis by blast
qed

subsection \<open>The differentiated loss\<close>

text \<open>
  The loss on dual numbers has the loss on reals as its value: the primal part of
  \<open>negative_cosine_similarity_jvp\<close> is \<open>negative_cosine_similarity\<close> of the primal parts,
  and one is a non-finite float exactly when the other is.
\<close>

lemma primal_sum_list: "primal (sum_list ds) = sum_list (map primal ds)"
  by (induction ds) (simp_all add: zero_dual_def plus_dual_def)

lemma primal_power2: "primal (d\<^sup>2) = (primal d)\<^sup>2"
  by (simp add: power2_eq_square times_dual_def)

lemma primal_square_sum:
  "primal (sum_list (map (\<lambda>v. v\<^sup>2) row)) = square_sum (map primal row)"
  by (simp add: primal_sum_list square_sum_def o_def primal_power2)

lemma dsqrt_floor:
  "\<exists>d. dsqrt (dmaximum (sum_list (map (\<lambda>v. v\<^sup>2) row)) (1 / 10 ^ 12)) = Some d \<and>
       primal d = sqrt (max (square_sum (map primal row)) (1 / 10 ^ 12))"
proof -
  have "sqrt (max (square_sum (map primal row)) (1 / 10 ^ 12)) \<noteq> 0"
    using norm_floor_pos[of "map primal row"] by simp
  then show ?thesis
    by (simp add: dsqrt_def dmaximum_def fdiv_def primal_square_sum)
qed

lemma l2_normalize_jvp_row:
  "\<exists>r. (let square_sum = sum_list (map (\<lambda>v. v\<^sup>2) row)
        in case dsqrt (dmaximum square_sum (1 / 10 ^ 12)) of
             None \<Rightarrow> None
           | Some x_inv_norm \<Rightarrow> those (map (\<lambda>v. ddiv v x_inv_norm) row)) = Some r \<and>
       map primal r = normalized_row (map primal row)"
proof -
  from dsqrt_floor[of row] obtain d where
    d: "dsqrt (dmaximum (sum_list (map (\<lambda>v. v\<^sup>2) row)) (1 / 10 ^ 12)) = Some d"
    and pd: "primal d = sqrt (max (square_sum (map primal row)) (1 / 10 ^ 12))"
    by blast
  have nz: "primal d \<noteq> 0"
    using norm_floor_pos[of "map primal row"] pd by simp
  have "(\<lambda>v. ddiv v d) =
        (\<lambda>v. Some (Dual (primal v / primal d)
                   (tangent v / primal d - tangent d * primal v / (primal d)\<^sup>2)))"
    using nz by (simp add: ddiv_def fun_eq_iff)
  then have "those (map (\<lambda>v. ddiv v d) row) =
        Some (map (\<lambda>v. Dual (primal v / primal d)
                   (tangent v / primal d - tangent d * primal v / (primal d)\<^sup>2)) row)"
    by (simp only: those_map_Some)
  moreover have "map primal (map (\<lambda>v. Dual (primal v / primal d)
                   (tangent v / primal d - tangent d * primal v / (primal d)\<^sup>2)) row) =
        normalized_row (map primal row)"
    by (simp add: normalized_row_def pd o_def)
  ultimately show ?thesis unfolding Let_def d option.case by blast
qed

lemma those_map_ex:
  assumes "\<forall>x\<in>set xs. \<exists>r. f x = Some r \<and> P x r"
  shows "\<exists>rs. those (map f xs) = Some rs \<and> list_all2 P xs rs"
  using assms
proof (induction xs)
  case Nil
  show ?case by simp
next
  case (Cons x xs)
  then obtain r rs where "f x = Some r" "P x r" "those (map f xs) = Some rs" "list_all2 P xs rs"
    by auto
  then show ?case by simp
qed

lemma l2_normalize_jvp_primal:
  "\<exists>r. l2_normalize_jvp x (1 / 10 ^ 12) = Some r \<and>
       map (map primal) r = map normalized_row (map (map primal) x)"
proof -
  let ?f = "\<lambda>row. let square_sum = sum_list (map (\<lambda>v. v\<^sup>2) row)
        in case dsqrt (dmaximum square_sum (1 / 10 ^ 12)) of
             None \<Rightarrow> None
           | Some x_inv_norm \<Rightarrow> those (map (\<lambda>v. ddiv v x_inv_norm) row)"
  have "\<forall>row\<in>set x. \<exists>r. ?f row = Some r \<and> map primal r = normalized_row (map primal row)"
    using l2_normalize_jvp_row by blast
  from those_map_ex[where f = ?f and P = "\<lambda>row r. map primal r = normalized_row (map primal row)",
      OF this]
  obtain rs where r: "those (map ?f x) = Some rs"
    and a: "list_all2 (\<lambda>row r. map primal r = normalized_row (map primal row)) x rs"
    by blast
  from a have "map (map primal) rs = map normalized_row (map (map primal) x)"
    by (induction x rs rule: list_all2_induct) simp_all
  with r show ?thesis by (simp add: l2_normalize_jvp_def)
qed

lemma primal_dot:
  "primal (sum_list (map2 (\<lambda>a b. a * b) r s)) =
     sum_list (map2 (\<lambda>a b. a * b) (map primal r) (map primal s))"
  by (induction r s rule: list_induct2') (simp_all add: zero_dual_def plus_dual_def times_dual_def)

lemma primal_dots:
  "map primal (map2 (\<lambda>r s. sum_list (map2 (\<lambda>a b. a * b) r s)) p z) =
     map2 (\<lambda>r s. sum_list (map2 (\<lambda>a b. a * b) r s)) (map (map primal) p) (map (map primal) z)"
  by (induction p z rule: list_induct2') (simp_all add: primal_dot)

lemma dmean_primal: "map_option primal (dmean ds) = mean (map primal ds)"
  by (simp add: dmean_def ddiv_def mean_def fdiv_def primal_sum_list)

lemma negative_cosine_similarity_jvp_primal:
  "map_option primal (negative_cosine_similarity_jvp p z) =
     negative_cosine_similarity (map (map primal) p) (map (map primal) z)"
proof -
  from l2_normalize_jvp_primal[of p] obtain p' where
    p: "l2_normalize_jvp p (1 / 10 ^ 12) = Some p'"
    and pp: "map (map primal) p' = map normalized_row (map (map primal) p)" by blast
  from l2_normalize_jvp_primal[of z] obtain z' where
    z: "l2_normalize_jvp z (1 / 10 ^ 12) = Some z'"
    and zz: "map (map primal) z' = map normalized_row (map (map primal) z)" by blast
  have "map_option primal (map_option uminus d) = map_option uminus (map_option primal d)"
    for d :: "dual option"
    by (cases d) (simp_all add: uminus_dual_def)
  then have "map_option primal (negative_cosine_similarity_jvp p z) =
        map_option uminus (mean (map primal
          (map2 (\<lambda>r s. sum_list (map2 (\<lambda>a b. a * b) r s)) p' z')))"
    unfolding negative_cosine_similarity_jvp_def p z option.case dmean_primal[symmetric] .
  also have "\<dots> = negative_cosine_similarity (map (map primal) p) (map (map primal) z)"
    unfolding primal_dots pp zz negative_cosine_similarity_def l2_normalize_eq option.case ..
  finally show ?thesis .
qed

subsection \<open>The gradient through the second augmented view\<close>

lemma sqrt_25: "sqrt 25 = 5"
  by (rule real_sqrt_unique) simp_all

lemma probe_views:
  "apply_transform [[- 1, 0]] probe_rnd = ([[- 1, 0]], \<lambda>n. probe_rnd (Suc n))"
  "apply_transform1 [[- 1, 0]] (\<lambda>n. probe_rnd (Suc n)) = ([[3, 4]], \<lambda>n. probe_rnd (Suc (Suc (Suc n))))"
  by (simp_all add: apply_transform_def apply_transform1_def rand_def uniform_def probe_rnd_def)

lemma probe_weight_variables:
  "probe_weight (variables (dict_merge [[''w''] \<mapsto> d] Map.empty) Map.empty () Map.empty) = d"
  by (simp add: probe_weight_def variables_def dict_merge_def)

lemma probe_pass_original:
  "layer_apply probe_module
     (variables (dict_merge [[''w''] \<mapsto> d] Map.empty) Map.empty () Map.empty) (Signal [[- 1, 0]]) =
   (\<lparr>sig_val = [[CDual (- 1) 0, CDual 0 0]], sig_t = \<lparr>t_start = 2, t_stop = - 2, t_sps = 2\<rparr>\<rparr>,
    Map.empty)"
  by (simp add: probe_module_def probe_weight_variables probe_row_def Signal_def)

lemma probe_pass_second:
  "layer_apply probe_module
     (variables (dict_merge [[''w''] \<mapsto> d] Map.empty) Map.empty () Map.empty) (Signal [[3, 4]]) =
   (\<lparr>sig_val = [[CDual (3 * of_real (primal d)) (3 * of_real (tangent d)), CDual 4 0]],
     sig_t = \<lparr>t_start = 2, t_stop = - 2, t_sps = 2\<rparr>\<rparr>,
    Map.empty)"
  by (simp add: probe_module_def probe_weight_variables probe_row_def Signal_def)

lemma ncs_jvp_probe:
  "negative_cosine_similarity_jvp [[Dual 1 0, Dual 0 0]] [[Dual 3 3, Dual 4 0]] =
     Some (Dual (- (3 / 5)) (- (48 / 125)))"
  by (simp add: negative_cosine_similarity_jvp_def l2_normalize_jvp_def dsqrt_def dmaximum_def
        ddiv_def dmean_def fdiv_def plus_dual_def times_dual_def zero_dual_def uminus_dual_def
        power2_eq_square sqrt_25)

lemma cabs_values:
  "cabs (CDual (- 1) 0) = Dual 1 0" "cabs (CDual 0 0) = Dual 0 0"
  "cabs (CDual 4 0) = Dual 4 0" "cabs (CDual (3 * of_real 1) (3 * of_real 1)) = Dual 3 3"
  by (simp_all add: cabs_def)

lemma loss_fn_probe:
  "loss_fn probe_module [[''w''] \<mapsto> Dual 1 1] Map.empty [[- 1, 0]] [] Map.empty () Map.empty
     probe_rnd = (Some (Dual (- (3 / 5)) (- (48 / 125))), Map.empty)"
  unfolding loss_fn_def probe_views Let_def split_conv probe_pass_original probe_pass_second
  by (simp add: cabs_values ncs_jvp_probe del: of_real_1)

lemma seed_probe:
  "(\<lambda>j. map_option (\<lambda>v. Dual v (if j = [''w''] then 1 else 0)) ([[''w''] \<mapsto> 1] j)) =
   [[''w''] \<mapsto> Dual 1 1]"
  by (rule ext) simp

lemma ncs_jvp_probe_detached:
  "negative_cosine_similarity_jvp [[Dual 1 0, Dual 0 0]]
     (map (map stop_gradient) [[Dual 3 3, Dual 4 0]]) = Some (Dual (- (3 / 5)) 0)"
  by (simp add: negative_cosine_similarity_jvp_def l2_normalize_jvp_def dsqrt_def dmaximum_def
        ddiv_def dmean_def fdiv_def plus_dual_def times_dual_def zero_dual_def uminus_dual_def
        power2_eq_square sqrt_25 stop_gradient_def)

text \<open>
  Claim C1 asks for a zero gradient of the loss with respect to a parameter that reaches
  it only through the second augmented view. \<open>loss_fn\<close> computes the detached magnitude
  of that view but gives the loss the magnitude that is not detached. On the batch
  \<open>[[-1, 0]]\<close> with the samples of \<open>probe_rnd\<close>, the first view is the batch itself and
  the second is \<open>[[3, 4]]\<close>; the parameter \<open>w\<close> of \<open>probe_module\<close> has no effect on the
  pass over \<open>[[-1, 0]]\<close> and scales the first sample of the pass over \<open>[[3, 4]]\<close>. The
  gradient entry of \<open>w\<close> is \<open>-48/125\<close>. With the detached magnitude the tangent of the
  loss on these values is \<open>0\<close>.
\<close>

theorem loss_fn_gradient_through_second_view:
  "fst (apply_transform [[- 1, 0]] probe_rnd) = [[- 1, 0]] \<and>
   fst (apply_transform1 [[- 1, 0]] (snd (apply_transform [[- 1, 0]] probe_rnd))) = [[3, 4]] \<and>
   sig_val (fst (layer_apply probe_module
      (variables (dict_merge [[''w''] \<mapsto> d] Map.empty) Map.empty () Map.empty)
      (Signal [[- 1, 0]]))) = [[CDual (- 1) 0, CDual 0 0]] \<and>
   sig_val (fst (layer_apply probe_module
      (variables (dict_merge [[''w''] \<mapsto> Dual 1 1] Map.empty) Map.empty () Map.empty)
      (Signal [[3, 4]]))) = [[CDual 3 3, CDual 4 0]] \<and>
   snd (value_and_grad
          (\<lambda>params. loss_fn probe_module params Map.empty [[- 1, 0]] [] Map.empty ()
                      (no_tangent Map.empty) probe_rnd)
          [[''w''] \<mapsto> 1]) [''w''] = Some (- (48 / 125)) \<and>
   negative_cosine_similarity_jvp [[Dual 1 0, Dual 0 0]]
     (map (map stop_gradient) [[Dual 3 3, Dual 4 0]]) = Some (Dual (- (3 / 5)) 0)"
proof -
  have nt: "no_tangent (Map.empty :: keypath \<rightharpoonup> real) = Map.empty"
    by (simp add: no_tangent_def)
  have g: "snd (value_and_grad
          (\<lambda>params. loss_fn probe_module params Map.empty [[- 1, 0]] [] Map.empty ()
                      (no_tangent Map.empty) probe_rnd)
          [[''w''] \<mapsto> 1]) [''w''] = Some (- (48 / 125))"
    unfolding nt value_and_grad_def Let_def split_def snd_conv seed_probe loss_fn_probe
    by simp
  show ?thesis
    unfolding probe_views fst_conv snd_conv probe_pass_original probe_pass_second
    using g ncs_jvp_probe_detached by simp
qed

end
